theory Spec2Isabelle
  imports Main "HOL-Library.Word"
begin

section \<open>Values: bytes, strings, JSON documents\<close>

text \<open>
  A Node \<open>Buffer\<close> is a list of 8-bit words. A JavaScript string is a sequence of
  UTF-16 code units. The model writes it as the bytes of its generalised UTF-8 form, one
  \<open>char\<close> per byte: a code point as UTF-8 has it (a surrogate pair is one code point
  of four bytes), and an unpaired surrogate U+D800 to U+DFFF as the three bytes
  \<open>ED\<close>, \<open>A0..BF\<close>, \<open>80..BF\<close> that the same scheme gives it. So ASCII text is
  one \<open>char\<close> per character, every JavaScript string has its \<open>char\<close> list, and the
  lists that are UTF-8 stand for the strings without unpaired surrogate (\<open>well_formed\<close>
  below). Numbers of JSON documents are integers.
\<close>

type_synonym byte = "8 word"
type_synonym bytes = "byte list"

datatype json =
    JNull
  | JBool bool
  | JNum int
  | JStr string
  | JArr "json list"
  | JObj "(string \<times> json) list"

text \<open>An object keeps its properties in insertion order. \<open>obj_get\<close> is \<open>o[k]\<close>
  (\<open>None\<close> for \<open>undefined\<close>), \<open>obj_set\<close> is \<open>o[k] = v\<close>, \<open>obj_delete\<close> is
  \<open>delete o[k]\<close>.\<close>

definition obj_get :: "(string \<times> json) list \<Rightarrow> string \<Rightarrow> json option" where
  "obj_get kvs k = map_of kvs k"

fun obj_set :: "(string \<times> json) list \<Rightarrow> string \<Rightarrow> json \<Rightarrow> (string \<times> json) list" where
  "obj_set [] k v = [(k, v)]"
| "obj_set ((k', v') # kvs) k v =
     (if k' = k then (k, v) # kvs else (k', v') # obj_set kvs k v)"

definition obj_delete :: "(string \<times> json) list \<Rightarrow> string \<Rightarrow> (string \<times> json) list" where
  "obj_delete kvs k = filter (\<lambda>kv. fst kv \<noteq> k) kvs"

text \<open>Property access on a value of any type: only an object has own properties.\<close>

fun get_prop :: "json \<Rightarrow> string \<Rightarrow> json option" where
  "get_prop (JObj kvs) k = obj_get kvs k"
| "get_prop _ k = None"

text \<open>JavaScript truthiness of a JSON value, and of a possibly undefined one.\<close>

fun truthy :: "json \<Rightarrow> bool" where
  "truthy JNull = False"
| "truthy (JBool b) = b"
| "truthy (JNum n) = (n \<noteq> 0)"
| "truthy (JStr s) = (s \<noteq> [])"
| "truthy (JArr xs) = True"
| "truthy (JObj kvs) = True"

fun truthy_opt :: "json option \<Rightarrow> bool" where
  "truthy_opt None = False"
| "truthy_opt (Some v) = truthy v"

section \<open>Encodings of Buffer: utf8 and hex\<close>

definition in_range :: "byte \<Rightarrow> nat \<Rightarrow> nat \<Rightarrow> bool" where
  "in_range b lo hi \<longleftrightarrow> lo \<le> unat b \<and> unat b \<le> hi"

definition continuation :: "byte \<Rightarrow> bool" where
  "continuation b = in_range b 0x80 0xBF"

text \<open>The bounds of the byte that follows the lead byte \<open>b\<close> of a sequence of three
  or four bytes.\<close>

definition lower_boundary :: "byte \<Rightarrow> nat" where
  "lower_boundary b = (if unat b = 0xE0 then 0xA0 else if unat b = 0xF0 then 0x90 else 0x80)"

definition upper_boundary :: "byte \<Rightarrow> nat" where
  "upper_boundary b = (if unat b = 0xED then 0x9F else if unat b = 0xF4 then 0x8F else 0xBF)"

text \<open>The bytes of U+FFFD, the replacement character.\<close>

definition replacement :: bytes where
  "replacement = [0xEF, 0xBF, 0xBD]"

text \<open>The byte sequences that are UTF-8, and the strings without unpaired surrogate.\<close>

fun valid_utf8 :: "bytes \<Rightarrow> bool" where
  "valid_utf8 [] = True"
| "valid_utf8 (b # bs) =
     (if unat b < 0x80 then valid_utf8 bs
      else if in_range b 0xC2 0xDF then
        (case bs of
           c1 # r1 \<Rightarrow> continuation c1 \<and> valid_utf8 r1
         | _ \<Rightarrow> False)
      else if in_range b 0xE0 0xEF then
        (case bs of
           c1 # c2 # r2 \<Rightarrow>
             in_range c1 (lower_boundary b) (upper_boundary b) \<and> continuation c2 \<and> valid_utf8 r2
         | _ \<Rightarrow> False)
      else if in_range b 0xF0 0xF4 then
        (case bs of
           c1 # c2 # c3 # r3 \<Rightarrow>
             in_range c1 (lower_boundary b) (upper_boundary b) \<and> continuation c2
             \<and> continuation c3 \<and> valid_utf8 r3
         | _ \<Rightarrow> False)
      else False)"

definition well_formed :: "string \<Rightarrow> bool" where
  "well_formed s = valid_utf8 (map (\<lambda>c. of_char c) s)"

text \<open>
  The \<open>'utf8'\<close> encoder (\<open>cipher.update(plaintext, 'utf8', ...)\<close>,
  \<open>createHash(...).update(data)\<close>): the bytes of the string, with U+FFFD in the place of
  every unpaired surrogate.
\<close>

fun replace_surrogates :: "bytes \<Rightarrow> bytes" where
  "replace_surrogates (a # b # c # rest) =
     (if unat a = 0xED \<and> in_range b 0xA0 0xBF \<and> continuation c
      then replacement @ replace_surrogates rest
      else a # replace_surrogates (b # c # rest))"
| "replace_surrogates bs = bs"

definition utf8_encode :: "string \<Rightarrow> bytes" where
  "utf8_encode s = replace_surrogates (map (\<lambda>c. of_char c) s)"

text \<open>
  The \<open>'utf8'\<close> decoder (\<open>decipher.update(..., 'hex', 'utf8')\<close> and \<open>final('utf8')\<close>):
  a sequence that is UTF-8 is kept; a byte that cannot start a sequence, and a sequence
  cut short by a byte that cannot continue it or by the end, is replaced by U+FFFD, and
  decoding goes on at the byte that cut it short.
\<close>

fun utf8_sanitize :: "bytes \<Rightarrow> bytes" where
  "utf8_sanitize [] = []"
| "utf8_sanitize (b # bs) =
     (if unat b < 0x80 then b # utf8_sanitize bs
      else if in_range b 0xC2 0xDF then
        (case bs of
           [] \<Rightarrow> replacement
         | c1 # r1 \<Rightarrow>
             if continuation c1 then b # c1 # utf8_sanitize r1
             else replacement @ utf8_sanitize bs)
      else if in_range b 0xE0 0xEF then
        (case bs of
           [] \<Rightarrow> replacement
         | c1 # r1 \<Rightarrow>
             if in_range c1 (lower_boundary b) (upper_boundary b) then
               (case r1 of
                  [] \<Rightarrow> replacement
                | c2 # r2 \<Rightarrow>
                    if continuation c2 then b # c1 # c2 # utf8_sanitize r2
                    else replacement @ utf8_sanitize r1)
             else replacement @ utf8_sanitize bs)
      else if in_range b 0xF0 0xF4 then
        (case bs of
           [] \<Rightarrow> replacement
         | c1 # r1 \<Rightarrow>
             if in_range c1 (lower_boundary b) (upper_boundary b) then
               (case r1 of
                  [] \<Rightarrow> replacement
                | c2 # r2 \<Rightarrow>
                    if continuation c2 then
                      (case r2 of
                         [] \<Rightarrow> replacement
                       | c3 # r3 \<Rightarrow>
                           if continuation c3 then b # c1 # c2 # c3 # utf8_sanitize r3
                           else replacement @ utf8_sanitize r2)
                    else replacement @ utf8_sanitize r1)
             else replacement @ utf8_sanitize bs)
      else replacement @ utf8_sanitize bs)"

definition utf8_decode :: "bytes \<Rightarrow> string" where
  "utf8_decode bs = map (\<lambda>b. char_of (unat b)) (utf8_sanitize bs)"

text \<open>\<open>s.length\<close>, the number of UTF-16 code units: one for every sequence, and one more
  for a sequence of four bytes.\<close>

definition js_length :: "string \<Rightarrow> nat" where
  "js_length s =
     length (filter (\<lambda>c. \<not> continuation (of_char c)) s)
     + length (filter (\<lambda>c. in_range (of_char c) 0xF0 0xFF) s)"

text \<open>\<open>buf.toString('hex')\<close>: two lower-case digits per byte.\<close>

definition hex_digit :: "nat \<Rightarrow> char" where
  "hex_digit n = (if n < 10 then char_of (48 + n) else char_of (87 + n))"

fun hex_encode :: "bytes \<Rightarrow> string" where
  "hex_encode [] = []"
| "hex_encode (b # bs) = hex_digit (unat b div 16) # hex_digit (unat b mod 16) # hex_encode bs"

text \<open>\<open>Buffer.from(s, 'hex')\<close>: digits of either case are read pairwise; decoding stops
  at the first pair that is not two hex digits, and a trailing single character is
  dropped.\<close>

definition hex_val :: "char \<Rightarrow> nat option" where
  "hex_val c =
     (let n = (of_char c :: nat) in
      if 48 \<le> n \<and> n \<le> 57 then Some (n - 48)
      else if 97 \<le> n \<and> n \<le> 102 then Some (n - 87)
      else if 65 \<le> n \<and> n \<le> 70 then Some (n - 55)
      else None)"

fun hex_decode :: "string \<Rightarrow> bytes" where
  "hex_decode (a # b # cs) =
     (case hex_val a of
        None \<Rightarrow> []
      | Some x \<Rightarrow>
          (case hex_val b of
             None \<Rightarrow> []
           | Some y \<Rightarrow> word_of_nat (16 * x + y) # hex_decode cs))"
| "hex_decode _ = []"




section \<open>The platform: what the code calls and does not define\<close>

text \<open>
  The cryptographic primitives of Node's \<open>crypto\<close> module, \<open>Date\<close> and \<open>JSON\<close> are
  parameters of the model.
  \<^item> \<open>cipher alg key iv plaintext\<close> is \<open>createCipheriv(alg, key, iv)\<close> followed by
    \<open>update\<close>, \<open>final\<close> and \<open>getAuthTag\<close>: the ciphertext and the tag.
  \<^item> \<open>decipher alg key iv tag ciphertext\<close> is \<open>createDecipheriv(alg, key, iv)\<close>,
    \<open>setAuthTag(tag)\<close> when the tag is not empty, \<open>update\<close> and \<open>final\<close>; \<open>None\<close> when
    any of them throws.
  \<^item> \<open>sha256\<close> is \<open>createHash('sha256').update(data).digest()\<close>, \<open>scryptSync\<close> the key
    derivation.
  \<^item> \<open>toISOString t\<close> renders the time \<open>t\<close> (milliseconds since the epoch);
    \<open>date_parse s\<close> is \<open>new Date(s).getTime()\<close>, \<open>None\<close> for an invalid date.
  \<^item> \<open>JSON_stringify\<close> and \<open>JSON_parse\<close>, the latter \<open>None\<close> on a SyntaxError.
\<close>

record platform =
  cipher :: "string \<Rightarrow> bytes \<Rightarrow> bytes \<Rightarrow> bytes \<Rightarrow> bytes \<times> bytes"
  decipher :: "string \<Rightarrow> bytes \<Rightarrow> bytes \<Rightarrow> bytes \<Rightarrow> bytes \<Rightarrow> bytes option"
  sha256 :: "bytes \<Rightarrow> bytes"
  scryptSync :: "string \<Rightarrow> string \<Rightarrow> nat \<Rightarrow> bytes"
  toISOString :: "int \<Rightarrow> string"
  date_parse :: "string \<Rightarrow> int option"
  JSON_stringify :: "json \<Rightarrow> string"
  JSON_parse :: "string \<Rightarrow> json option"

text \<open>
  The tags that the decipher of \<open>aes-256-gcm\<close> takes when \<open>createDecipheriv\<close> is
  called without \<open>authTagLength\<close>, as \<open>decrypt\<close> calls it: \<open>setAuthTag\<close> throws unless the
  tag has 4, 8 or 12 to 16 bytes, and \<open>final\<close> compares a tag of fewer than 16 bytes
  with the first bytes of the tag it computes. \<open>tag_accepted t0 t\<close>: the tag \<open>t\<close> passes for
  the computed tag \<open>t0\<close>.
\<close>

definition tag_lengths :: "nat list" where
  "tag_lengths = [4, 8, 12, 13, 14, 15, 16]"

definition tag_accepted :: "bytes \<Rightarrow> bytes \<Rightarrow> bool" where
  "tag_accepted t0 t \<longleftrightarrow> length t \<in> set tag_lengths \<and> t = take (length t) t0"

section \<open>EncryptionService (src/utils/encryption.ts)\<close>

datatype error =
    ExpiredError
  | CryptoError
  | TypeError
  | DatabaseError string
  | SyntaxError
  | CacheBackendError
  | ServiceError string

text \<open>\<open>ExpiredError\<close> is \<open>Error('Encrypted data has expired')\<close>; \<open>CryptoError\<close> is whatever
  the calls on the decipher throw (\<open>createDecipheriv\<close>, \<open>setAuthTag\<close>, \<open>update\<close>,
  \<open>final\<close>), the failed tag check (the spec's IntegrityError) among them.\<close>

record EncryptedValue =
  encrypted_data :: string
  algorithm :: string
  iv :: string
  created_at :: string
  expires_at :: "string option"
  auth_tag :: "string option"
  key_version :: "string option"

record EncryptionService =
  key :: bytes
  keyVersion :: string

definition algorithm_name :: string where
  "algorithm_name = ''aes-256-gcm''"

definition new_EncryptionService :: "platform \<Rightarrow> string \<Rightarrow> string \<Rightarrow> EncryptionService" where
  "new_EncryptionService P encryptionKey version =
     \<lparr>key = scryptSync P encryptionKey ''controlvector-salt'' 32, keyVersion = version\<rparr>"

text \<open>\<open>encrypt\<close>: the random IV (\<open>randomBytes(12)\<close>) and the clock are arguments.\<close>

definition encrypt ::
  "platform \<Rightarrow> EncryptionService \<Rightarrow> bytes \<Rightarrow> int \<Rightarrow> string \<Rightarrow> int option \<Rightarrow> EncryptedValue" where
  "encrypt P svc ivb now plaintext expiresAt =
     (let (encrypted, authTag) = cipher P algorithm_name (key svc) ivb (utf8_encode plaintext) in
      \<lparr>encrypted_data = hex_encode encrypted,
       algorithm = algorithm_name,
       iv = hex_encode ivb,
       created_at = toISOString P now,
       expires_at = map_option (toISOString P) expiresAt,
       auth_tag = Some (hex_encode authTag),
       key_version = Some (keyVersion svc)\<rparr>)"

text \<open>The guard of \<open>decrypt\<close>: \<open>expires_at && new Date(expires_at) < new Date()\<close>. An
  empty string is falsy; an invalid date compares false.\<close>

definition expired :: "platform \<Rightarrow> int \<Rightarrow> string option \<Rightarrow> bool" where
  "expired P now e =
     (case e of
        None \<Rightarrow> False
      | Some s \<Rightarrow> s \<noteq> [] \<and> (case date_parse P s of None \<Rightarrow> False | Some t \<Rightarrow> t < now))"

text \<open>\<open>decrypt\<close>. \<open>decipher.update(data, 'hex', 'utf8')\<close> refuses a hex text with an odd
  number of characters; of a text that it accepts it reads the pairs of digits as
  \<open>Buffer.from\<close> does.\<close>

definition decrypt :: "platform \<Rightarrow> EncryptionService \<Rightarrow> int \<Rightarrow> EncryptedValue \<Rightarrow> error + string" where
  "decrypt P svc now ev =
     (if expired P now (expires_at ev) then Inl ExpiredError
      else if odd (js_length (encrypted_data ev)) then Inl CryptoError
      else
        let ivb = hex_decode (iv ev);
            authTag = (case auth_tag ev of
                         None \<Rightarrow> []
                       | Some t \<Rightarrow> if t \<noteq> [] then hex_decode t else [])
        in case decipher P (algorithm ev) (key svc) ivb authTag (hex_decode (encrypted_data ev)) of
             None \<Rightarrow> Inl CryptoError
           | Some decrypted \<Rightarrow> Inr (utf8_decode decrypted))"

definition hash :: "platform \<Rightarrow> string \<Rightarrow> string" where
  "hash P data = hex_encode (sha256 P (utf8_encode data))"


section \<open>Envelopes as JSON\<close>

text \<open>The object literal that \<open>encrypt\<close> returns, property by property in the order of
  the source; \<open>expires_at\<close> is added last and only when given.\<close>

definition opt_field :: "string \<Rightarrow> string option \<Rightarrow> (string \<times> json) list" where
  "opt_field name v = (case v of None \<Rightarrow> [] | Some s \<Rightarrow> [(name, JStr s)])"

definition EncryptedValue_to_json :: "EncryptedValue \<Rightarrow> (string \<times> json) list" where
  "EncryptedValue_to_json ev =
     [(''encrypted_data'', JStr (encrypted_data ev)),
      (''algorithm'', JStr (algorithm ev)),
      (''iv'', JStr (iv ev)),
      (''created_at'', JStr (created_at ev))]
     @ opt_field ''auth_tag'' (auth_tag ev)
     @ opt_field ''key_version'' (key_version ev)
     @ opt_field ''expires_at'' (expires_at ev)"

text \<open>
  A JSON value read as an \<open>EncryptedValue\<close>, as \<open>decrypt\<close> reads its argument:
  \<open>encrypted_data\<close>, \<open>algorithm\<close> and \<open>iv\<close> must be strings (\<open>Buffer.from\<close>,
  \<open>createDecipheriv\<close> and \<open>update\<close> throw a TypeError otherwise); \<open>expires_at\<close> and
  \<open>auth_tag\<close> are tested for truthiness first, so a missing or falsy one counts as
  absent. A truthy \<open>expires_at\<close> or \<open>auth_tag\<close> that is not a string is answered by
  TypeError too; the code writes no such envelope.
\<close>

fun str_field :: "(string \<times> json) list \<Rightarrow> string \<Rightarrow> string option" where
  "str_field kvs name = (case obj_get kvs name of Some (JStr s) \<Rightarrow> Some s | _ \<Rightarrow> None)"

fun opt_str_field :: "(string \<times> json) list \<Rightarrow> string \<Rightarrow> (string option) option" where
  "opt_str_field kvs name =
     (case obj_get kvs name of
        None \<Rightarrow> Some None
      | Some (JStr s) \<Rightarrow> Some (Some s)
      | Some v \<Rightarrow> if truthy v then None else Some None)"

fun as_EncryptedValue :: "json \<Rightarrow> EncryptedValue option" where
  "as_EncryptedValue (JObj kvs) =
     (case str_field kvs ''encrypted_data'' of None \<Rightarrow> None | Some d \<Rightarrow>
      case str_field kvs ''algorithm'' of None \<Rightarrow> None | Some a \<Rightarrow>
      case str_field kvs ''iv'' of None \<Rightarrow> None | Some i \<Rightarrow>
      case opt_str_field kvs ''expires_at'' of None \<Rightarrow> None | Some e \<Rightarrow>
      case opt_str_field kvs ''auth_tag'' of None \<Rightarrow> None | Some t \<Rightarrow>
        Some \<lparr>encrypted_data = d, algorithm = a, iv = i,
              created_at = (case str_field kvs ''created_at'' of None \<Rightarrow> [] | Some c \<Rightarrow> c),
              expires_at = e, auth_tag = t,
              key_version = str_field kvs ''key_version''\<rparr>)"
| "as_EncryptedValue _ = None"

definition decrypt_json :: "platform \<Rightarrow> EncryptionService \<Rightarrow> int \<Rightarrow> json \<Rightarrow> error + string" where
  "decrypt_json P svc now v =
     (case as_EncryptedValue v of None \<Rightarrow> Inl TypeError | Some ev \<Rightarrow> decrypt P svc now ev)"

section \<open>encryptObject and decryptObject\<close>

definition bookkeeping :: string where
  "bookkeeping = ''_encrypted_fields''"

text \<open>
  The loop of \<open>encryptObject\<close>. \<open>obj\<close> is the argument, \<open>result\<close> the copy being
  filled; \<open>rnd n\<close> is the \<open>n\<close>-th draw of \<open>randomBytes(12)\<close>. A field that is
  \<open>undefined\<close> or \<open>null\<close> in \<open>obj\<close> is skipped. \<open>result._encrypted_fields.push(field)\<close>
  throws when the property is no longer the array (the field named is the bookkeeping
  field itself).
\<close>

fun encrypt_fields ::
  "platform \<Rightarrow> EncryptionService \<Rightarrow> (nat \<Rightarrow> bytes) \<Rightarrow> int \<Rightarrow> int option \<Rightarrow>
   (string \<times> json) list \<Rightarrow> string list \<Rightarrow> nat \<Rightarrow> (string \<times> json) list \<Rightarrow>
   error + ((string \<times> json) list \<times> nat)" where
  "encrypt_fields P svc rnd now expiresAt obj [] n result = Inr (result, n)"
| "encrypt_fields P svc rnd now expiresAt obj (field # rest) n result =
     (case obj_get obj field of
        None \<Rightarrow> encrypt_fields P svc rnd now expiresAt obj rest n result
      | Some JNull \<Rightarrow> encrypt_fields P svc rnd now expiresAt obj rest n result
      | Some v \<Rightarrow>
          (let plaintext = (case v of JStr s \<Rightarrow> s | _ \<Rightarrow> JSON_stringify P v);
               result1 = obj_set result field
                 (JObj (EncryptedValue_to_json (encrypt P svc (rnd n) now plaintext expiresAt)))
           in case obj_get result1 bookkeeping of
                Some (JArr names) \<Rightarrow>
                  encrypt_fields P svc rnd now expiresAt obj rest (Suc n)
                    (obj_set result1 bookkeeping (JArr (names @ [JStr field])))
              | _ \<Rightarrow> Inl TypeError))"

definition encryptObject ::
  "platform \<Rightarrow> EncryptionService \<Rightarrow> (nat \<Rightarrow> bytes) \<Rightarrow> nat \<Rightarrow> int \<Rightarrow>
   (string \<times> json) list \<Rightarrow> string list \<Rightarrow> int option \<Rightarrow>
   error + ((string \<times> json) list \<times> nat)" where
  "encryptObject P svc rnd n now obj fieldsToEncrypt expiresAt =
     encrypt_fields P svc rnd now expiresAt obj fieldsToEncrypt n
       (obj_set obj bookkeeping (JArr []))"



section \<open>DatabaseClient (database/client): row store and cache\<close>

text \<open>
  The world outside the process. \<open>tables\<close> maps a table name to its rows, documents
  the store keeps as they were written. \<open>db_down t\<close> says that every request on table
  \<open>t\<close> is answered by an error; \<open>cache_down\<close> that the Redis backend throws. The
  in-memory cache (\<open>useInMemoryCache\<close>) never throws. \<open>entropy\<close> and \<open>uuids\<close> are
  the values that \<open>randomBytes(12)\<close> and \<open>randomUUID()\<close> will return, \<open>drawn\<close> counts
  the draws, \<open>clock\<close> is \<open>new Date()\<close>. \<open>trace\<close> records the requests sent to store
  and cache, in order. The expiry of cache entries after their TTL is not modelled.
\<close>

datatype event =
    CacheGet string
  | CacheSet string
  | CacheDelete string
  | DbSelect string
  | DbInsert string
  | DbUpdate string

record world =
  tables :: "string \<Rightarrow> json list"
  cache_store :: "string \<Rightarrow> string option"
  db_down :: "string \<Rightarrow> bool"
  cache_down :: bool
  useInMemoryCache :: bool
  clock :: int
  entropy :: "nat \<Rightarrow> bytes"
  uuids :: "nat \<Rightarrow> string"
  drawn :: nat
  trace :: "event list"

text \<open>An \<open>async\<close> function: it reads and changes the world and returns or throws.\<close>

type_synonym 'a io = "world \<Rightarrow> (error + 'a) \<times> world"

definition io_ret :: "'a \<Rightarrow> 'a io" where
  "io_ret x = (\<lambda>w. (Inr x, w))"

definition io_throw :: "error \<Rightarrow> 'a io" where
  "io_throw e = (\<lambda>w. (Inl e, w))"

definition io_bind :: "'a io \<Rightarrow> ('a \<Rightarrow> 'b io) \<Rightarrow> 'b io" where
  "io_bind m f = (\<lambda>w. case m w of (Inl e, w') \<Rightarrow> (Inl e, w') | (Inr x, w') \<Rightarrow> f x w')"

definition io_catch :: "'a io \<Rightarrow> (error \<Rightarrow> 'a io) \<Rightarrow> 'a io" where
  "io_catch m h = (\<lambda>w. case m w of (Inl e, w') \<Rightarrow> h e w' | (Inr x, w') \<Rightarrow> (Inr x, w'))"

definition emit :: "event \<Rightarrow> world \<Rightarrow> world" where
  "emit e w = w\<lparr>trace := trace w @ [e]\<rparr>"

definition now_io :: "int io" where
  "now_io = (\<lambda>w. (Inr (clock w), w))"

definition randomBytes12 :: "bytes io" where
  "randomBytes12 = (\<lambda>w. (Inr (entropy w (drawn w)), w\<lparr>drawn := Suc (drawn w)\<rparr>))"

definition randomUUID :: "string io" where
  "randomUUID = (\<lambda>w. (Inr (uuids w (drawn w)), w\<lparr>drawn := Suc (drawn w)\<rparr>))"

subsection \<open>Supabase requests\<close>

definition row_of :: "string \<Rightarrow> string \<Rightarrow> json \<Rightarrow> bool" where
  "row_of userId workspaceId row \<longleftrightarrow>
     get_prop row ''user_id'' = Some (JStr userId)
     \<and> get_prop row ''workspace_id'' = Some (JStr workspaceId)"

definition has_id :: "json option \<Rightarrow> json \<Rightarrow> bool" where
  "has_id ident row \<longleftrightarrow> ident \<noteq> None \<and> get_prop row ''id'' = ident"

definition findByUserAndWorkspace :: "string \<Rightarrow> string \<Rightarrow> string \<Rightarrow> json list io" where
  "findByUserAndWorkspace table userId workspaceId =
     (\<lambda>w. if db_down w table
          then (Inl (DatabaseError ''FindByUserAndWorkspace failed''), emit (DbSelect table) w)
          else (Inr (filter (row_of userId workspaceId) (tables w table)), emit (DbSelect table) w))"

text \<open>\<open>findById\<close> asks for \<open>.single()\<close>: one row, and \<open>null\<close> when the store reports that
  the rows found are not exactly one (PGRST116).\<close>

definition findById :: "string \<Rightarrow> json option \<Rightarrow> json option io" where
  "findById table ident =
     (\<lambda>w. if db_down w table
          then (Inl (DatabaseError ''FindById failed''), emit (DbSelect table) w)
          else (case filter (has_id ident) (tables w table) of
                  [row] \<Rightarrow> (Inr (Some row), emit (DbSelect table) w)
                | _ \<Rightarrow> (Inr None, emit (DbSelect table) w)))"

definition insert_row :: "string \<Rightarrow> json \<Rightarrow> json io" where
  "insert_row table doc =
     (\<lambda>w. if db_down w table
          then (Inl (DatabaseError ''Insert failed''), emit (DbInsert table) w)
          else (Inr doc, emit (DbInsert table) (w\<lparr>tables := (tables w)(table := tables w table @ [doc])\<rparr>)))"

text \<open>An update sets the columns that the document names and keeps the others.\<close>

fun merge_row :: "json \<Rightarrow> json \<Rightarrow> json" where
  "merge_row (JObj row) (JObj doc) = JObj (fold (\<lambda>kv acc. obj_set acc (fst kv) (snd kv)) doc row)"
| "merge_row row doc = doc"

definition update_row :: "string \<Rightarrow> json option \<Rightarrow> json \<Rightarrow> json io" where
  "update_row table ident doc =
     (\<lambda>w. if db_down w table
          then (Inl (DatabaseError ''Update failed''), emit (DbUpdate table) w)
          else
            (let rows = map (\<lambda>row. if has_id ident row then merge_row row doc else row) (tables w table);
                 w' = emit (DbUpdate table) (w\<lparr>tables := (tables w)(table := rows)\<rparr>)
             in case filter (has_id ident) (tables w table) of
                  [row] \<Rightarrow> (Inr (merge_row row doc), w')
                | _ \<Rightarrow> (Inl (DatabaseError ''Update failed''), w')))"

subsection \<open>Cache requests\<close>

definition backend_fails :: "world \<Rightarrow> bool" where
  "backend_fails w \<longleftrightarrow> \<not> useInMemoryCache w \<and> cache_down w"

definition backend_get :: "string \<Rightarrow> string option io" where
  "backend_get k =
     (\<lambda>w. if backend_fails w then (Inl CacheBackendError, emit (CacheGet k) w)
          else (Inr (cache_store w k), emit (CacheGet k) w))"

definition backend_set :: "string \<Rightarrow> string \<Rightarrow> unit io" where
  "backend_set k s =
     (\<lambda>w. if backend_fails w then (Inl CacheBackendError, emit (CacheSet k) w)
          else (Inr (), emit (CacheSet k) (w\<lparr>cache_store := (cache_store w)(k := Some s)\<rparr>)))"

definition backend_del :: "string \<Rightarrow> unit io" where
  "backend_del k =
     (\<lambda>w. if backend_fails w then (Inl CacheBackendError, emit (CacheDelete k) w)
          else (Inr (), emit (CacheDelete k) (w\<lparr>cache_store := (cache_store w)(k := None)\<rparr>)))"

definition JSON_parse_io :: "platform \<Rightarrow> string \<Rightarrow> json io" where
  "JSON_parse_io P s = (case JSON_parse P s of None \<Rightarrow> io_throw SyntaxError | Some v \<Rightarrow> io_ret v)"

text \<open>\<open>cacheGet\<close>, \<open>cacheSet\<close>, \<open>cacheDelete\<close>: the whole body stands in a \<open>try\<close> whose
  \<open>catch\<close> logs and returns. \<open>None\<close> is \<open>null\<close>.\<close>

definition cacheGet :: "platform \<Rightarrow> string \<Rightarrow> json option io" where
  "cacheGet P k =
     io_catch
       (io_bind (backend_get k) (\<lambda>cached.
          case cached of
            None \<Rightarrow> io_ret None
          | Some s \<Rightarrow>
              if s = [] then io_ret None
              else io_bind (JSON_parse_io P s) (\<lambda>v. io_ret (Some v))))
       (\<lambda>e. io_ret None)"

definition cacheSet :: "platform \<Rightarrow> string \<Rightarrow> json \<Rightarrow> nat \<Rightarrow> unit io" where
  "cacheSet P k v ttl =
     io_catch (backend_set k (JSON_stringify P v)) (\<lambda>e. io_ret ())"

definition cacheDelete :: "string \<Rightarrow> unit io" where
  "cacheDelete k = io_catch (backend_del k) (\<lambda>e. io_ret ())"

fun join_colon :: "string list \<Rightarrow> string" where
  "join_colon [] = []"
| "join_colon [x] = x"
| "join_colon (x # y # xs) = x @ '':'' @ join_colon (y # xs)"

definition generateCacheKey :: "string \<Rightarrow> string list \<Rightarrow> string" where
  "generateCacheKey kind identifiers = ''cv:context:'' @ kind @ '':'' @ join_colon identifiers"

section \<open>SecretContextService (services/SecretContextService)\<close>

definition secret_cache_key :: "string \<Rightarrow> string \<Rightarrow> string" where
  "secret_cache_key workspaceId userId =
     generateCacheKey ''secret_context'' [workspaceId, userId]"

definition getSecretContext :: "platform \<Rightarrow> string \<Rightarrow> string \<Rightarrow> json option io" where
  "getSecretContext P workspaceId userId =
     io_bind (cacheGet P (secret_cache_key workspaceId userId)) (\<lambda>cached.
       if truthy_opt cached then io_ret cached
       else
         io_bind (findByUserAndWorkspace ''secret_contexts'' userId workspaceId) (\<lambda>results.
           case results of
             [] \<Rightarrow> io_ret None
           | secretContext # others \<Rightarrow>
               if truthy secretContext
               then io_bind (cacheSet P (secret_cache_key workspaceId userId) secretContext 300)
                      (\<lambda>u. io_ret (Some secretContext))
               else io_ret None))"

definition encrypt_io :: "platform \<Rightarrow> EncryptionService \<Rightarrow> string \<Rightarrow> int option \<Rightarrow> EncryptedValue io" where
  "encrypt_io P svc plaintext expiresAt =
     io_bind randomBytes12 (\<lambda>ivb.
     io_bind now_io (\<lambda>t.
       io_ret (encrypt P svc ivb t plaintext expiresAt)))"

definition encryptObject_io ::
  "platform \<Rightarrow> EncryptionService \<Rightarrow> json \<Rightarrow> string list \<Rightarrow> json io" where
  "encryptObject_io P svc doc fieldsToEncrypt =
     (\<lambda>w. case doc of
            JObj obj \<Rightarrow>
              (case encryptObject P svc (entropy w) (drawn w) (clock w) obj fieldsToEncrypt None of
                 Inl e \<Rightarrow> (Inl e, w)
               | Inr (result, n) \<Rightarrow> (Inr (JObj result), w\<lparr>drawn := n\<rparr>))
          | _ \<Rightarrow> (Inl TypeError, w))"

definition saveSecretContext :: "platform \<Rightarrow> EncryptionService \<Rightarrow> json \<Rightarrow> unit io" where
  "saveSecretContext P svc secretContext =
     io_bind (encryptObject_io P svc secretContext [''credentials'', ''ssh_keys'', ''certificates''])
       (\<lambda>encryptedContext.
     io_bind (findById ''secret_contexts'' (get_prop secretContext ''id'')) (\<lambda>existing.
       if truthy_opt existing
       then io_bind (update_row ''secret_contexts'' (get_prop secretContext ''id'') encryptedContext)
              (\<lambda>r. io_ret ())
       else io_bind (insert_row ''secret_contexts'' encryptedContext) (\<lambda>r. io_ret ())))"

definition createEmptySecretContext :: "platform \<Rightarrow> string \<Rightarrow> string \<Rightarrow> json io" where
  "createEmptySecretContext P workspaceId userId =
     io_bind randomUUID (\<lambda>uuid.
     io_bind now_io (\<lambda>t.
       io_ret (JObj [(''id'', JStr uuid),
                     (''workspace_id'', JStr workspaceId),
                     (''user_id'', JStr userId),
                     (''api_keys'', JObj []),
                     (''credentials'', JObj []),
                     (''ssh_keys'', JObj []),
                     (''certificates'', JObj []),
                     (''created_at'', JStr (toISOString P t)),
                     (''updated_at'', JStr (toISOString P t))])))"

record AuditLogData =
  log_workspace_id :: string
  log_user_id :: string
  log_operation :: string
  log_context_type :: string
  log_resource_key :: string
  log_status :: string
  log_old_value_hash :: "string option"
  log_new_value_hash :: "string option"
  log_error_message :: "string option"

definition audit_doc :: "platform \<Rightarrow> AuditLogData \<Rightarrow> string \<Rightarrow> int \<Rightarrow> json" where
  "audit_doc P logData uuid t =
     JObj ([(''id'', JStr uuid),
            (''workspace_id'', JStr (log_workspace_id logData)),
            (''user_id'', JStr (log_user_id logData)),
            (''operation'', JStr (log_operation logData)),
            (''context_type'', JStr (log_context_type logData)),
            (''resource_key'', JStr (log_resource_key logData)),
            (''ip_address'', JStr ''system''),
            (''user_agent'', JStr ''cv-context-manager''),
            (''timestamp'', JStr (toISOString P t)),
            (''status'', JStr (log_status logData))]
           @ opt_field ''old_value_hash'' (log_old_value_hash logData)
           @ opt_field ''new_value_hash'' (log_new_value_hash logData)
           @ opt_field ''error_message'' (log_error_message logData))"

text \<open>\<open>createAuditLog\<close>: the insert stands in a \<open>try\<close> whose \<open>catch\<close> only logs.\<close>

definition createAuditLog :: "platform \<Rightarrow> AuditLogData \<Rightarrow> unit io" where
  "createAuditLog P logData =
     io_bind randomUUID (\<lambda>uuid.
     io_bind now_io (\<lambda>t.
       io_catch
         (io_bind (insert_row ''audit_logs'' (audit_doc P logData uuid t)) (\<lambda>r. io_ret ()))
         (\<lambda>e. io_ret ())))"

text \<open>
  \<open>secretContext.credentials[key] = entry\<close> and its reading and deleting forms. The map
  must be there: indexing \<open>undefined\<close> or \<open>null\<close> throws a TypeError, and so does (in
  a module, which is strict code) setting a property of a string, number or boolean.
  Reading a property of such a value gives \<open>undefined\<close>. An array in the place of a
  map is answered like a primitive value. Assigning under the key \<open>__proto__\<close>, when
  the map has no own property of that name, calls the setter that every object
  inherits: the entry becomes the prototype of the map, and the map gets no property.
  The reading forms see own properties only; the names that every object inherits
  (\<open>Object_prototype_names\<close>) are outside what they model, and the statements on a key
  of the caller's choosing leave them out.
\<close>

definition Object_prototype_names :: "string list" where
  "Object_prototype_names =
     [''constructor'', ''__proto__'', ''hasOwnProperty'', ''isPrototypeOf'',
      ''propertyIsEnumerable'', ''toLocaleString'', ''toString'', ''valueOf'',
      ''__defineGetter__'', ''__defineSetter__'', ''__lookupGetter__'', ''__lookupSetter__'']"

definition set_entry :: "json \<Rightarrow> string \<Rightarrow> string \<Rightarrow> json \<Rightarrow> json io" where
  "set_entry secretContext mapname name entry =
     (case secretContext of
        JObj fs \<Rightarrow>
          (case obj_get fs mapname of
             Some (JObj m) \<Rightarrow>
               if name = ''__proto__'' \<and> obj_get m name = None then io_ret secretContext
               else io_ret (JObj (obj_set fs mapname (JObj (obj_set m name entry))))
           | _ \<Rightarrow> io_throw TypeError)
      | _ \<Rightarrow> io_throw TypeError)"

definition get_entry :: "json \<Rightarrow> string \<Rightarrow> string \<Rightarrow> json option io" where
  "get_entry secretContext mapname name =
     (case get_prop secretContext mapname of
        None \<Rightarrow> io_throw TypeError
      | Some JNull \<Rightarrow> io_throw TypeError
      | Some m \<Rightarrow> io_ret (get_prop m name))"

definition delete_entry :: "json \<Rightarrow> string \<Rightarrow> string \<Rightarrow> json" where
  "delete_entry secretContext mapname name =
     (case secretContext of
        JObj fs \<Rightarrow>
          (case obj_get fs mapname of
             Some (JObj m) \<Rightarrow> JObj (obj_set fs mapname (JObj (obj_delete m name)))
           | _ \<Rightarrow> secretContext)
      | _ \<Rightarrow> secretContext)"

definition set_updated_at :: "platform \<Rightarrow> json \<Rightarrow> json io" where
  "set_updated_at P secretContext =
     io_bind now_io (\<lambda>t.
       case secretContext of
         JObj fs \<Rightarrow> io_ret (JObj (obj_set fs ''updated_at'' (JStr (toISOString P t))))
       | _ \<Rightarrow> io_throw TypeError)"

definition load_or_create :: "platform \<Rightarrow> string \<Rightarrow> string \<Rightarrow> json io" where
  "load_or_create P workspaceId userId =
     io_bind (getSecretContext P workspaceId userId) (\<lambda>found.
       case found of
         None \<Rightarrow> createEmptySecretContext P workspaceId userId
       | Some secretContext \<Rightarrow>
           if truthy secretContext then io_ret secretContext
           else createEmptySecretContext P workspaceId userId)"

definition error_message :: "error \<Rightarrow> string" where
  "error_message e =
     (case e of
        ExpiredError \<Rightarrow> ''Encrypted data has expired''
      | CryptoError \<Rightarrow> ''Unsupported state or unable to authenticate data''
      | TypeError \<Rightarrow> ''TypeError''
      | SyntaxError \<Rightarrow> ''SyntaxError''
      | DatabaseError m \<Rightarrow> m
      | CacheBackendError \<Rightarrow> ''cache''
      | ServiceError m \<Rightarrow> m)"

text \<open>\<open>`${error}`\<close>, the name of the error and its message. The wording of the messages
  of the platform's own errors is not modelled.\<close>

definition error_name :: "error \<Rightarrow> string" where
  "error_name e =
     (case e of
        TypeError \<Rightarrow> ''TypeError''
      | SyntaxError \<Rightarrow> ''SyntaxError''
      | DatabaseError m \<Rightarrow> ''DatabaseError''
      | _ \<Rightarrow> ''Error'')"

definition error_text :: "error \<Rightarrow> string" where
  "error_text e = error_name e @ '': '' @ error_message e"

definition apostrophe :: char where
  "apostrophe = CHR 0x27"

definition access_log :: "string \<Rightarrow> string \<Rightarrow> string \<Rightarrow> string \<Rightarrow> string \<Rightarrow> string option \<Rightarrow> AuditLogData" where
  "access_log workspaceId userId operation name status message =
     \<lparr>log_workspace_id = workspaceId, log_user_id = userId,
      log_operation = operation, log_context_type = ''secret'',
      log_resource_key = name, log_status = status,
      log_old_value_hash = None, log_new_value_hash = None,
      log_error_message = message\<rparr>"

definition generateSSHFingerprint :: "platform \<Rightarrow> string \<Rightarrow> string" where
  "generateSSHFingerprint P publicKey = take 32 (hash P publicKey)"

text \<open>The entry that \<open>storeCredential\<close> builds from the envelope, and its audit record.\<close>

definition credential_entry :: "EncryptedValue \<Rightarrow> string \<Rightarrow> string \<Rightarrow> string \<Rightarrow> string \<Rightarrow> json" where
  "credential_entry enc credentialType provider userId name =
     JObj (EncryptedValue_to_json enc
           @ [(''credential_type'', JStr credentialType),
              (''provider'', JStr provider),
              (''metadata'', JObj [(''created_by'', JStr userId),
                                   (''provider'', JStr provider),
                                   (''key_name'', JStr name)])])"

definition store_credential_log :: "platform \<Rightarrow> string \<Rightarrow> string \<Rightarrow> string \<Rightarrow> string \<Rightarrow> AuditLogData" where
  "store_credential_log P workspaceId userId name secret =
     \<lparr>log_workspace_id = workspaceId, log_user_id = userId,
      log_operation = ''store_credential'', log_context_type = ''secret'',
      log_resource_key = name, log_status = ''success'',
      log_old_value_hash = None, log_new_value_hash = Some (hash P secret),
      log_error_message = None\<rparr>"

definition storeCredential ::
  "platform \<Rightarrow> EncryptionService \<Rightarrow> string \<Rightarrow> string \<Rightarrow> string \<Rightarrow> string \<Rightarrow> string \<Rightarrow> string \<Rightarrow>
   int option \<Rightarrow> unit io" where
  "storeCredential P svc workspaceId userId name secret credentialType provider expiresAt =
     io_bind (encrypt_io P svc secret expiresAt) (\<lambda>enc.
     io_bind (load_or_create P workspaceId userId) (\<lambda>secretContext.
     io_bind (set_entry secretContext ''credentials'' name
                (credential_entry enc credentialType provider userId name)) (\<lambda>ctx1.
     io_bind (set_updated_at P ctx1) (\<lambda>ctx2.
     io_bind (saveSecretContext P svc ctx2) (\<lambda>u.
     io_bind (createAuditLog P (store_credential_log P workspaceId userId name secret)) (\<lambda>u.
     cacheDelete (secret_cache_key workspaceId userId)))))))"

definition getCredential ::
  "platform \<Rightarrow> EncryptionService \<Rightarrow> string \<Rightarrow> string \<Rightarrow> string \<Rightarrow> string option io" where
  "getCredential P svc workspaceId userId name =
     io_bind (getSecretContext P workspaceId userId) (\<lambda>found.
       case found of
         None \<Rightarrow> io_ret None
       | Some secretContext \<Rightarrow>
           if \<not> truthy secretContext then io_ret None
           else
             io_bind (get_entry secretContext ''credentials'' name) (\<lambda>entry.
               case entry of
                 None \<Rightarrow> io_ret None
               | Some encryptedCredential \<Rightarrow>
                   if \<not> truthy encryptedCredential then io_ret None
                   else
                     io_bind now_io (\<lambda>t.
                       case decrypt_json P svc t encryptedCredential of
                         Inr decryptedValue \<Rightarrow>
                           io_bind (createAuditLog P
                                      (access_log workspaceId userId ''get_credential'' name
                                         ''success'' None))
                             (\<lambda>u. io_ret (Some decryptedValue))
                       | Inl e \<Rightarrow>
                           io_bind (createAuditLog P
                                      (access_log workspaceId userId ''get_credential'' name
                                         ''failed'' (Some (error_message e))))
                             (\<lambda>u. io_throw
                                (ServiceError (''Failed to decrypt credential '' @ [apostrophe] @ name
                                   @ [apostrophe] @ '': '' @ error_text e))))))"

definition ssh_key_entry :: "platform \<Rightarrow> EncryptedValue \<Rightarrow> string \<Rightarrow> string \<Rightarrow> json option \<Rightarrow> json" where
  "ssh_key_entry P enc keyType publicKey metadata =
     JObj (EncryptedValue_to_json enc
           @ [(''key_type'', JStr keyType),
              (''public_key'', JStr publicKey),
              (''fingerprint'', JStr (generateSSHFingerprint P publicKey)),
              (''metadata'', (case metadata of
                                None \<Rightarrow> JObj []
                              | Some m \<Rightarrow> if truthy m then m else JObj []))])"

definition storeSSHKey ::
  "platform \<Rightarrow> EncryptionService \<Rightarrow> string \<Rightarrow> string \<Rightarrow> string \<Rightarrow> string \<Rightarrow> string \<Rightarrow> string \<Rightarrow>
   json option \<Rightarrow> unit io" where
  "storeSSHKey P svc workspaceId userId keyName privateKey publicKey keyType metadata =
     io_bind (encrypt_io P svc privateKey None) (\<lambda>enc.
     io_bind (load_or_create P workspaceId userId) (\<lambda>secretContext.
     io_bind (set_entry secretContext ''ssh_keys'' keyName
                (ssh_key_entry P enc keyType publicKey metadata)) (\<lambda>ctx1.
     io_bind (set_updated_at P ctx1) (\<lambda>ctx2.
     io_bind (saveSecretContext P svc ctx2) (\<lambda>u.
     io_bind (createAuditLog P
                (access_log workspaceId userId ''store_ssh_key'' keyName ''success'' None)) (\<lambda>u.
     cacheDelete (secret_cache_key workspaceId userId)))))))"

definition opt_json_field :: "string \<Rightarrow> json option \<Rightarrow> (string \<times> json) list" where
  "opt_json_field name v = (case v of None \<Rightarrow> [] | Some x \<Rightarrow> [(name, x)])"

definition getSSHKey ::
  "platform \<Rightarrow> EncryptionService \<Rightarrow> string \<Rightarrow> string \<Rightarrow> string \<Rightarrow> json option io" where
  "getSSHKey P svc workspaceId userId keyName =
     io_bind (getSecretContext P workspaceId userId) (\<lambda>found.
       case found of
         None \<Rightarrow> io_ret None
       | Some secretContext \<Rightarrow>
           if \<not> truthy secretContext then io_ret None
           else
             io_bind (get_entry secretContext ''ssh_keys'' keyName) (\<lambda>entry.
               case entry of
                 None \<Rightarrow> io_ret None
               | Some encryptedSSHKey \<Rightarrow>
                   if \<not> truthy encryptedSSHKey then io_ret None
                   else
                     io_bind now_io (\<lambda>t.
                       case decrypt_json P svc t encryptedSSHKey of
                         Inr privateKey \<Rightarrow>
                           io_bind (createAuditLog P
                                      (access_log workspaceId userId ''get_ssh_key'' keyName
                                         ''success'' None))
                             (\<lambda>u. io_ret (Some (JObj
                                ([(''privateKey'', JStr privateKey)]
                                 @ opt_json_field ''publicKey'' (get_prop encryptedSSHKey ''public_key'')
                                 @ opt_json_field ''fingerprint'' (get_prop encryptedSSHKey ''fingerprint'')))))
                       | Inl e \<Rightarrow>
                           io_bind (createAuditLog P
                                      (access_log workspaceId userId ''get_ssh_key'' keyName
                                         ''failed'' (Some (error_message e))))
                             (\<lambda>u. io_throw
                                (ServiceError (''Failed to decrypt SSH key '' @ [apostrophe] @ keyName
                                   @ [apostrophe] @ '': '' @ error_text e))))))"

text \<open>\<open>listSecrets\<close>: \<open>Object.entries\<close> of each map, each entry reduced to its metadata.
  \<open>Object.entries\<close> throws on \<open>undefined\<close> and \<open>null\<close>; a value that is not an object
  has no entries here.\<close>

definition entries_of :: "json \<Rightarrow> string \<Rightarrow> (string \<times> json) list io" where
  "entries_of secretContext mapname =
     (case get_prop secretContext mapname of
        None \<Rightarrow> io_throw TypeError
      | Some JNull \<Rightarrow> io_throw TypeError
      | Some (JObj m) \<Rightarrow> io_ret m
      | Some other \<Rightarrow> io_ret [])"

definition credential_info :: "string \<times> json \<Rightarrow> json" where
  "credential_info kv =
     JObj ([(''key'', JStr (fst kv))]
           @ opt_json_field ''provider'' (get_prop (snd kv) ''provider'')
           @ opt_json_field ''type'' (get_prop (snd kv) ''credential_type'')
           @ opt_json_field ''created_at'' (get_prop (snd kv) ''created_at'')
           @ (if truthy_opt (get_prop (snd kv) ''expires_at'')
              then opt_json_field ''expires_at'' (get_prop (snd kv) ''expires_at'') else []))"

definition ssh_key_info :: "string \<times> json \<Rightarrow> json" where
  "ssh_key_info kv =
     JObj ([(''key'', JStr (fst kv))]
           @ opt_json_field ''type'' (get_prop (snd kv) ''key_type'')
           @ opt_json_field ''fingerprint'' (get_prop (snd kv) ''fingerprint'')
           @ opt_json_field ''created_at'' (get_prop (snd kv) ''created_at''))"

definition certificate_info :: "string \<times> json \<Rightarrow> json" where
  "certificate_info kv =
     JObj ([(''key'', JStr (fst kv))]
           @ opt_json_field ''type'' (get_prop (snd kv) ''certificate_type'')
           @ opt_json_field ''common_name'' (get_prop (snd kv) ''common_name'')
           @ opt_json_field ''expires_at'' (get_prop (snd kv) ''expires_at''))"

definition listSecrets :: "platform \<Rightarrow> string \<Rightarrow> string \<Rightarrow> json io" where
  "listSecrets P workspaceId userId =
     io_bind (getSecretContext P workspaceId userId) (\<lambda>found.
       case found of
         None \<Rightarrow> io_ret (JObj [(''credentials'', JArr []), (''ssh_keys'', JArr []),
                                 (''certificates'', JArr [])])
       | Some secretContext \<Rightarrow>
           if \<not> truthy secretContext
           then io_ret (JObj [(''credentials'', JArr []), (''ssh_keys'', JArr []),
                              (''certificates'', JArr [])])
           else
             io_bind (entries_of secretContext ''credentials'') (\<lambda>creds.
             io_bind (entries_of secretContext ''ssh_keys'') (\<lambda>keys.
             io_bind (entries_of secretContext ''certificates'') (\<lambda>certs.
               io_ret (JObj [(''credentials'', JArr (map credential_info creds)),
                             (''ssh_keys'', JArr (map ssh_key_info keys)),
                             (''certificates'', JArr (map certificate_info certs))])))))"

datatype secret_type = Credential | SshKey | Certificate

fun plural :: "secret_type \<Rightarrow> string" where
  "plural Credential = ''credentials''"
| "plural SshKey = ''ssh_keys''"
| "plural Certificate = ''certificates''"

text \<open>\<open>deleteSecret\<close>. The old value is read with optional chaining
  (\<open>secretContext[`${secretType}s`]?.[key]\<close>), the \<open>switch\<close> then indexes the map
  without it.\<close>

definition old_value :: "json \<Rightarrow> string \<Rightarrow> string \<Rightarrow> json option" where
  "old_value secretContext mapname name =
     (case get_prop secretContext mapname of None \<Rightarrow> None | Some m \<Rightarrow> get_prop m name)"

definition old_value_hash :: "platform \<Rightarrow> json \<Rightarrow> string \<Rightarrow> string \<Rightarrow> string option" where
  "old_value_hash P secretContext mapname name =
     (case old_value secretContext mapname name of
        None \<Rightarrow> None
      | Some v \<Rightarrow> if truthy v then Some (hash P (JSON_stringify P v)) else None)"

definition delete_secret_log ::
  "platform \<Rightarrow> string \<Rightarrow> string \<Rightarrow> json \<Rightarrow> secret_type \<Rightarrow> string \<Rightarrow> AuditLogData" where
  "delete_secret_log P workspaceId userId secretContext secretType name =
     \<lparr>log_workspace_id = workspaceId, log_user_id = userId,
      log_operation = ''delete_secret'', log_context_type = ''secret'',
      log_resource_key = name, log_status = ''success'',
      log_old_value_hash =
        (case old_value_hash P secretContext (plural secretType) name of
           None \<Rightarrow> None
         | Some h \<Rightarrow> if h \<noteq> [] then Some h else None),
      log_new_value_hash = None,
      log_error_message = None\<rparr>"

definition deleteSecret ::
  "platform \<Rightarrow> EncryptionService \<Rightarrow> string \<Rightarrow> string \<Rightarrow> secret_type \<Rightarrow> string \<Rightarrow> bool io" where
  "deleteSecret P svc workspaceId userId secretType name =
     io_bind (getSecretContext P workspaceId userId) (\<lambda>found.
       case found of
         None \<Rightarrow> io_ret False
       | Some secretContext \<Rightarrow>
           if \<not> truthy secretContext then io_ret False
           else
             io_bind (get_entry secretContext (plural secretType) name) (\<lambda>entry.
               if truthy_opt entry then
                 io_bind (set_updated_at P (delete_entry secretContext (plural secretType) name))
                   (\<lambda>ctx2.
                 io_bind (saveSecretContext P svc ctx2) (\<lambda>u.
                 io_bind (createAuditLog P
                            (delete_secret_log P workspaceId userId secretContext secretType name))
                   (\<lambda>u.
                 io_bind (cacheDelete (secret_cache_key workspaceId userId)) (\<lambda>u.
                   io_ret True))))
               else io_ret False))"

text \<open>An operation never throws the error \<open>e\<close>, from whatever world it starts.\<close>

definition never_throws :: "error \<Rightarrow> 'a io \<Rightarrow> bool" where
  "never_throws e m \<longleftrightarrow> (\<forall>w. fst (m w) \<noteq> Inl e)"

text \<open>The common shape of the bodies of \<open>storeCredential\<close> and \<open>storeSSHKey\<close> after the
  envelope is made; a device of the proofs.\<close>

definition write_path ::
  "platform \<Rightarrow> EncryptionService \<Rightarrow> string \<Rightarrow> string \<Rightarrow> string \<Rightarrow> string \<Rightarrow> json \<Rightarrow>
   AuditLogData \<Rightarrow> unit io" where
  "write_path P svc workspaceId userId mapname name entry logData =
     io_bind (load_or_create P workspaceId userId) (\<lambda>secretContext.
     io_bind (set_entry secretContext mapname name entry) (\<lambda>ctx1.
     io_bind (set_updated_at P ctx1) (\<lambda>ctx2.
     io_bind (saveSecretContext P svc ctx2) (\<lambda>r.
     io_bind (createAuditLog P logData) (\<lambda>r.
     cacheDelete (secret_cache_key workspaceId userId))))))"

text \<open>Words for the statements on \<open>encryptObject\<close>: a field is encrypted when it is
  present and not \<open>null\<close>; its plaintext is the string itself or the JSON text of
  the value; its envelope is the object that replaces it.\<close>

definition encryptable :: "(string \<times> json) list \<Rightarrow> string \<Rightarrow> bool" where
  "encryptable obj f \<longleftrightarrow> (case obj_get obj f of None \<Rightarrow> False | Some v \<Rightarrow> v \<noteq> JNull)"

definition plaintext_of :: "platform \<Rightarrow> json \<Rightarrow> string" where
  "plaintext_of P v = (case v of JStr s \<Rightarrow> s | _ \<Rightarrow> JSON_stringify P v)"

definition envelope_of :: "platform \<Rightarrow> EncryptionService \<Rightarrow> bytes \<Rightarrow> int \<Rightarrow> int option \<Rightarrow> json \<Rightarrow> json" where
  "envelope_of P svc ivb now ex v =
     JObj (EncryptedValue_to_json (encrypt P svc ivb now (plaintext_of P v) ex))"



text \<open>A pair of workspace and user with no context yet: nothing cached under its key
  (or the cache backend down), no row of its own in the store, and no row under the
  UUID that will be drawn for the new context.\<close>

definition cache_misses :: "world \<Rightarrow> string \<Rightarrow> bool" where
  "cache_misses w k \<longleftrightarrow> backend_fails w \<or> cache_store w k = None"

definition fresh_context :: "platform \<Rightarrow> string \<Rightarrow> string \<Rightarrow> string \<Rightarrow> int \<Rightarrow> (string \<times> json) list" where
  "fresh_context P ws u uuid t =
     [(''id'', JStr uuid),
      (''workspace_id'', JStr ws),
      (''user_id'', JStr u),
      (''api_keys'', JObj []),
      (''credentials'', JObj []),
      (''ssh_keys'', JObj []),
      (''certificates'', JObj []),
      (''created_at'', JStr (toISOString P t)),
      (''updated_at'', JStr (toISOString P t))]"

text \<open>The context that a first write for a pair hands to the store; \<open>first_entries\<close> is
  its map of the kind written.\<close>

definition first_entries :: "string \<Rightarrow> json \<Rightarrow> (string \<times> json) list" where
  "first_entries name entry = (if name = ''__proto__'' then [] else [(name, entry)])"

definition first_context ::
  "platform \<Rightarrow> string \<Rightarrow> string \<Rightarrow> string \<Rightarrow> int \<Rightarrow> string \<Rightarrow> string \<Rightarrow> json \<Rightarrow> (string \<times> json) list" where
  "first_context P ws u uuid t mapname name entry =
     obj_set (obj_set (fresh_context P ws u uuid t) mapname (JObj (first_entries name entry)))
       ''updated_at'' (JStr (toISOString P t))"

text \<open>The world after the audit append and the cache invalidation that end a write.\<close>

definition finish_write :: "platform \<Rightarrow> AuditLogData \<Rightarrow> string \<Rightarrow> world \<Rightarrow> world" where
  "finish_write P d k w = snd (cacheDelete k (snd (createAuditLog P d w)))"

text \<open>The property names of an envelope.\<close>

definition envelope_keys :: "string list" where
  "envelope_keys =
     [''encrypted_data'', ''algorithm'', ''iv'', ''created_at'', ''auth_tag'', ''key_version'',
      ''expires_at'']"

definition fresh_pair :: "world \<Rightarrow> string \<Rightarrow> string \<Rightarrow> bool" where
  "fresh_pair w ws u \<longleftrightarrow>
     cache_misses w (secret_cache_key ws u)
     \<and> \<not> db_down w ''secret_contexts''
     \<and> filter (row_of u ws) (tables w ''secret_contexts'') = []
     \<and> filter (has_id (Some (JStr (uuids w (Suc (drawn w)))))) (tables w ''secret_contexts'') = []"

text \<open>One column of a table.\<close>

definition column :: "string \<Rightarrow> json list \<Rightarrow> json option list" where
  "column name rows = map (\<lambda>row. get_prop row name) rows"

section \<open>A reference platform for concrete runs\<close>

text \<open>
  A small executable platform on which the hypotheses of the theorems below are
  discharged at concrete inputs. Its cipher adds a byte derived from key and IV to
  every byte; its tag is 16 bytes made of a marker byte and the reversed ciphertext;
  its decipher takes the tag whole or cut to one of the lengths that Node takes. Its
  dates are decimal numerals.
\<close>

definition ref_pad :: "bytes \<Rightarrow> bytes \<Rightarrow> byte" where
  "ref_pad k ivb = sum_list k + sum_list ivb + 1"

definition ref_tag :: "bytes \<Rightarrow> bytes \<Rightarrow> bytes \<Rightarrow> bytes" where
  "ref_tag k ivb c = take 16 (ref_pad k ivb # rev c @ replicate 16 (ref_pad k ivb))"

definition ref_cipher :: "string \<Rightarrow> bytes \<Rightarrow> bytes \<Rightarrow> bytes \<Rightarrow> bytes \<times> bytes" where
  "ref_cipher alg k ivb p =
     (let c = map (\<lambda>b. b + ref_pad k ivb) p in (c, ref_tag k ivb c))"

definition ref_decipher :: "string \<Rightarrow> bytes \<Rightarrow> bytes \<Rightarrow> bytes \<Rightarrow> bytes \<Rightarrow> bytes option" where
  "ref_decipher alg k ivb t c =
     (if alg = algorithm_name \<and> tag_accepted (ref_tag k ivb c) t
      then Some (map (\<lambda>b. b - ref_pad k ivb) c) else None)"

function show_nat :: "nat \<Rightarrow> string" where
  "show_nat n =
     (if n < 10 then [char_of (48 + n)]
      else show_nat (n div 10) @ [char_of (48 + n mod 10)])"
  by pat_completeness auto
termination
  by (relation "measure id") auto

declare show_nat.simps [simp del]

definition digit_val :: "char \<Rightarrow> nat option" where
  "digit_val c =
     (let n = (of_char c :: nat) in if 48 \<le> n \<and> n \<le> 57 then Some (n - 48) else None)"

fun read_nat_acc :: "nat \<Rightarrow> string \<Rightarrow> nat option" where
  "read_nat_acc acc [] = Some acc"
| "read_nat_acc acc (c # cs) =
     (case digit_val c of None \<Rightarrow> None | Some d \<Rightarrow> read_nat_acc (10 * acc + d) cs)"

definition read_nat :: "string \<Rightarrow> nat option" where
  "read_nat s = (if s = [] then None else read_nat_acc 0 s)"

definition ref_toISOString :: "int \<Rightarrow> string" where
  "ref_toISOString t = show_nat (nat t)"

definition ref_date_parse :: "string \<Rightarrow> int option" where
  "ref_date_parse s = map_option int (read_nat s)"

text \<open>The reference \<open>JSON\<close>: integers, strings with the two escapes a quotation mark and a
  backslash need, arrays and objects, without white space.\<close>

definition dquote :: char where
  "dquote = CHR 0x22"

definition backslash :: char where
  "backslash = CHR 0x5C"

definition escape_char :: "char \<Rightarrow> string" where
  "escape_char c = (if c = dquote \<or> c = backslash then [backslash, c] else [c])"

definition quote :: "string \<Rightarrow> string" where
  "quote s = dquote # concat (map escape_char s) @ [dquote]"

fun commas :: "string list \<Rightarrow> string" where
  "commas [] = []"
| "commas [x] = x"
| "commas (x # y # xs) = x @ '','' @ commas (y # xs)"

definition show_int :: "int \<Rightarrow> string" where
  "show_int i = (if i < 0 then CHR ''-'' # show_nat (nat (- i)) else show_nat (nat i))"

fun ref_stringify :: "json \<Rightarrow> string" where
  "ref_stringify JNull = ''null''"
| "ref_stringify (JBool b) = (if b then ''true'' else ''false'')"
| "ref_stringify (JNum i) = show_int i"
| "ref_stringify (JStr s) = quote s"
| "ref_stringify (JArr xs) = ''['' @ commas (map ref_stringify xs) @ '']''"
| "ref_stringify (JObj kvs) =
     ''{'' @ commas (map (\<lambda>(k, v). quote k @ '':'' @ ref_stringify v) kvs) @ ''}''"

fun parse_string_body :: "string \<Rightarrow> (string \<times> string) option" where
  "parse_string_body [] = None"
| "parse_string_body (c # cs) =
     (if c = dquote then Some ([], cs)
      else if c = backslash then
        (case cs of
           [] \<Rightarrow> None
         | d # ds \<Rightarrow>
             if d = dquote \<or> d = backslash
             then map_option (\<lambda>(s, r). (d # s, r)) (parse_string_body ds)
             else None)
      else map_option (\<lambda>(s, r). (c # s, r)) (parse_string_body cs))"

definition parse_number :: "string \<Rightarrow> (json \<times> string) option" where
  "parse_number s =
     (let neg = (s \<noteq> [] \<and> hd s = CHR ''-'');
          body = (if neg then tl s else s);
          ds = takeWhile (\<lambda>c. digit_val c \<noteq> None) body;
          r = dropWhile (\<lambda>c. digit_val c \<noteq> None) body
      in if ds = [] \<or> (length ds > 1 \<and> hd ds = CHR ''0'') then None
         else (case read_nat ds of
                 None \<Rightarrow> None
               | Some n \<Rightarrow> Some (JNum (if neg then - int n else int n), r)))"

fun parse_value :: "nat \<Rightarrow> string \<Rightarrow> (json \<times> string) option"
  and parse_elements :: "nat \<Rightarrow> string \<Rightarrow> (json list \<times> string) option"
  and parse_members :: "nat \<Rightarrow> string \<Rightarrow> ((string \<times> json) list \<times> string) option" where
  "parse_value 0 s = None"
| "parse_value (Suc n) s =
     (case s of
        [] \<Rightarrow> None
      | c # cs \<Rightarrow>
          if c = dquote then map_option (\<lambda>(x, r). (JStr x, r)) (parse_string_body cs)
          else if c = CHR ''['' then
            (if cs \<noteq> [] \<and> hd cs = CHR '']'' then Some (JArr [], tl cs)
             else map_option (\<lambda>(xs, r). (JArr xs, r)) (parse_elements n cs))
          else if c = CHR ''{'' then
            (if cs \<noteq> [] \<and> hd cs = CHR ''}'' then Some (JObj [], tl cs)
             else map_option (\<lambda>(kvs, r). (JObj kvs, r)) (parse_members n cs))
          else if take 4 s = ''null'' then Some (JNull, drop 4 s)
          else if take 4 s = ''true'' then Some (JBool True, drop 4 s)
          else if take 5 s = ''false'' then Some (JBool False, drop 5 s)
          else parse_number s)"
| "parse_elements 0 s = None"
| "parse_elements (Suc n) s =
     (case parse_value n s of
        None \<Rightarrow> None
      | Some (v, r) \<Rightarrow>
          (case r of
             [] \<Rightarrow> None
           | c # cs \<Rightarrow>
               if c = CHR '','' then map_option (\<lambda>(vs, r'). (v # vs, r')) (parse_elements n cs)
               else if c = CHR '']'' then Some ([v], cs)
               else None))"
| "parse_members 0 s = None"
| "parse_members (Suc n) s =
     (case s of
        [] \<Rightarrow> None
      | q # s1 \<Rightarrow>
          if q \<noteq> dquote then None
          else
            (case parse_string_body s1 of
               None \<Rightarrow> None
             | Some (k, s2) \<Rightarrow>
                 (case s2 of
                    [] \<Rightarrow> None
                  | colon # s3 \<Rightarrow>
                      if colon \<noteq> CHR '':'' then None
                      else
                        (case parse_value n s3 of
                           None \<Rightarrow> None
                         | Some (v, r) \<Rightarrow>
                             (case r of
                                [] \<Rightarrow> None
                              | c # cs \<Rightarrow>
                                  if c = CHR '','' then
                                    map_option (\<lambda>(kvs, r'). ((k, v) # kvs, r')) (parse_members n cs)
                                  else if c = CHR ''}'' then Some ([(k, v)], cs)
                                  else None)))))"

definition ref_parse :: "string \<Rightarrow> json option" where
  "ref_parse s =
     (case parse_value (Suc (length s)) s of
        Some (v, []) \<Rightarrow> Some v
      | _ \<Rightarrow> None)"

definition ref_platform :: platform where
  "ref_platform =
     \<lparr>cipher = ref_cipher,
      decipher = ref_decipher,
      sha256 = (\<lambda>bs. rev bs),
      scryptSync = (\<lambda>secret salt n. take n (utf8_encode (secret @ salt))),
      toISOString = ref_toISOString,
      date_parse = ref_date_parse,
      JSON_stringify = ref_stringify,
      JSON_parse = ref_parse\<rparr>"

text \<open>A reference world: empty store and cache, everything up.\<close>

definition ref_world :: world where
  "ref_world =
     \<lparr>tables = (\<lambda>t. []),
      cache_store = (\<lambda>k. None),
      db_down = (\<lambda>t. False),
      cache_down = False,
      useInMemoryCache = False,
      clock = 500,
      entropy = (\<lambda>n. [word_of_nat n, 2, 3]),
      uuids = (\<lambda>n. ''uuid-'' @ show_nat n),
      drawn = 0,
      trace = []\<rparr>"

definition down_world :: world where
  "down_world = ref_world\<lparr>cache_down := True\<rparr>"

definition ref_service :: EncryptionService where
  "ref_service = new_EncryptionService ref_platform ''k'' ''1''"

text \<open>The reference world after a first credential, and after a first SSH key.\<close>

definition stored_world :: world where
  "stored_world =
     snd (storeCredential ref_platform ref_service ''W'' ''U'' ''openai_key'' ''sk-test-123''
            ''api_key'' ''openai'' None ref_world)"

definition ssh_world :: world where
  "ssh_world =
     snd (storeSSHKey ref_platform ref_service ''W'' ''U'' ''deploy'' ''PRIVATE KEY''
            ''PUBLIC KEY'' ''ed25519'' None ref_world)"


definition example_envelope :: EncryptedValue where
  "example_envelope =
     \<lparr>encrypted_data = ''5a4c4a594c5b'', algorithm = ''aes-256-gcm'', iv = ''010203'',
      created_at = ''500'', expires_at = Some ''1000'',
      auth_tag = Some ''e75b4c594a4c5a'', key_version = Some ''1''\<rparr>"

text \<open>The string of one unpaired surrogate, U+D800, and the string of U+FFFD.\<close>

definition lone_surrogate :: string where
  "lone_surrogate = [CHR 0xED, CHR 0xA0, CHR 0x80]"

definition replacement_character :: string where
  "replacement_character = [CHR 0xEF, CHR 0xBF, CHR 0xBD]"

definition multibyte_text :: string where
  "multibyte_text = [CHR 0xE4, CHR 0xB8, CHR 0xAD, CHR 0xF0, CHR 0x9F, CHR 0x94, CHR 0x90, CHR ''k'']"






section \<open>Contracts of the cipher\<close>

text \<open>Correctness of the authenticated cipher under a key: what \<open>cipher\<close> produced,
  \<open>decipher\<close> opens.\<close>

definition gcm_correct :: "platform \<Rightarrow> bytes \<Rightarrow> bool" where
  "gcm_correct P k \<longleftrightarrow>
     (\<forall>ivb p. decipher P algorithm_name k ivb
                (snd (cipher P algorithm_name k ivb p))
                (fst (cipher P algorithm_name k ivb p)) = Some p)"


section \<open>Lemmas on the encodings\<close>

lemma char_byte: "char_of (unat (of_char c :: byte)) = c"
proof -
  have "(of_char c :: byte) = of_nat (of_char c)" by (simp only: of_nat_of_char)
  then have "unat (of_char c :: byte) = (of_char c :: nat) mod 256" by (simp add: unat_of_nat)
  then show ?thesis by simp
qed

lemma unat_of_char: "unat (of_char c :: byte) = of_char c"
proof -
  have "(of_char c :: byte) = of_nat (of_char c)" by (simp only: of_nat_of_char)
  then have "unat (of_char c :: byte) = (of_char c :: nat) mod 256" by (simp add: unat_of_nat)
  then show ?thesis by simp
qed

lemma utf8_sanitize_valid: "valid_utf8 bs \<Longrightarrow> utf8_sanitize bs = bs"
proof (induction bs rule: valid_utf8.induct)
  case 1
  then show ?case by simp
next
  case (2 b bs)
  consider (one) "unat b < 0x80"
    | (two) "\<not> unat b < 0x80" "in_range b 0xC2 0xDF"
    | (three) "\<not> unat b < 0x80" "\<not> in_range b 0xC2 0xDF" "in_range b 0xE0 0xEF"
    | (four) "\<not> unat b < 0x80" "\<not> in_range b 0xC2 0xDF" "\<not> in_range b 0xE0 0xEF"
        "in_range b 0xF0 0xF4"
    | (bad) "\<not> unat b < 0x80" "\<not> in_range b 0xC2 0xDF" "\<not> in_range b 0xE0 0xEF"
        "\<not> in_range b 0xF0 0xF4"
    by blast
  then show ?case
  proof cases
    case one
    with 2(1) 2(5) show ?thesis by simp
  next
    case two
    with 2(5) obtain c1 r1 where bs: "bs = c1 # r1" and c: "continuation c1" and v: "valid_utf8 r1"
      by (auto split: list.splits)
    from 2(2) [OF two bs v] two bs c show ?thesis by simp
  next
    case three
    with 2(5) obtain c1 c2 r2 where bs: "bs = c1 # c2 # r2"
      and c: "in_range c1 (lower_boundary b) (upper_boundary b)" "continuation c2"
      and v: "valid_utf8 r2"
      by (auto split: list.splits)
    from 2(3) [OF three bs] v three bs c show ?thesis by simp
  next
    case four
    with 2(5) obtain c1 c2 c3 r3 where bs: "bs = c1 # c2 # c3 # r3"
      and c: "in_range c1 (lower_boundary b) (upper_boundary b)" "continuation c2" "continuation c3"
      and v: "valid_utf8 r3"
      by (auto split: list.splits)
    from 2(4) [OF four bs] v four bs c show ?thesis by simp
  next
    case bad
    with 2(5) show ?thesis by simp
  qed
qed

lemma replace_surrogates_Cons:
  "unat b \<noteq> 0xED \<Longrightarrow> replace_surrogates (b # bs) = b # replace_surrogates bs"
  by (cases "(b # bs)" rule: replace_surrogates.cases) auto

lemma replace_surrogates_ED:
  "\<not> in_range c 0xA0 0xBF \<Longrightarrow> replace_surrogates (b # c # bs) = b # replace_surrogates (c # bs)"
  by (cases bs) auto

lemma continuation_not_ED: "continuation c \<Longrightarrow> unat c \<noteq> 0xED"
  by (auto simp add: continuation_def in_range_def)

lemma upper_boundary_le: "upper_boundary b \<le> 0xBF"
  by (simp add: upper_boundary_def)

lemma replace_surrogates_valid: "valid_utf8 bs \<Longrightarrow> replace_surrogates bs = bs"
proof (induction bs rule: valid_utf8.induct)
  case 1
  then show ?case by simp
next
  case (2 b bs)
  have c: "replace_surrogates (c # r) = c # replace_surrogates r" if "continuation c" for c r
    using continuation_not_ED [OF that] by (rule replace_surrogates_Cons)
  consider (one) "unat b < 0x80"
    | (two) "\<not> unat b < 0x80" "in_range b 0xC2 0xDF"
    | (three) "\<not> unat b < 0x80" "\<not> in_range b 0xC2 0xDF" "in_range b 0xE0 0xEF"
    | (four) "\<not> unat b < 0x80" "\<not> in_range b 0xC2 0xDF" "\<not> in_range b 0xE0 0xEF"
        "in_range b 0xF0 0xF4"
    | (bad) "\<not> unat b < 0x80" "\<not> in_range b 0xC2 0xDF" "\<not> in_range b 0xE0 0xEF"
        "\<not> in_range b 0xF0 0xF4"
    by blast
  then show ?case
  proof cases
    case one
    then have "unat b \<noteq> 0xED" by simp
    then have "replace_surrogates (b # bs) = b # replace_surrogates bs"
      by (rule replace_surrogates_Cons)
    with 2(1) 2(5) one show ?thesis by simp
  next
    case two
    with 2(5) obtain c1 r1 where bs: "bs = c1 # r1" and c1: "continuation c1" and v: "valid_utf8 r1"
      by (auto split: list.splits)
    have "unat b \<noteq> 0xED" using two(2) by (simp add: in_range_def)
    then have "replace_surrogates (b # bs) = b # replace_surrogates bs"
      by (rule replace_surrogates_Cons)
    with 2(2) [OF two bs v] bs c [OF c1] show ?thesis by simp
  next
    case three
    with 2(5) obtain c1 c2 r2 where bs: "bs = c1 # c2 # r2"
      and c1: "in_range c1 (lower_boundary b) (upper_boundary b)" and c2: "continuation c2"
      and v: "valid_utf8 r2"
      by (auto split: list.splits)
    have ih: "replace_surrogates r2 = r2" using 2(3) [OF three bs] v by simp
    have n: "unat b = 0xED \<Longrightarrow> \<not> in_range c1 0xA0 0xBF"
      using c1 by (simp add: in_range_def upper_boundary_def)
    have e: "unat c1 \<noteq> 0xED" using c1 upper_boundary_le [of b] by (simp add: in_range_def)
    have "replace_surrogates (b # c1 # c2 # r2) = b # replace_surrogates (c1 # c2 # r2)"
    proof (cases "unat b = 0xED")
      case True
      from n [OF True] show ?thesis by (rule replace_surrogates_ED)
    next
      case False
      then show ?thesis by (rule replace_surrogates_Cons)
    qed
    also have "replace_surrogates (c1 # c2 # r2) = c1 # replace_surrogates (c2 # r2)"
      using e by (rule replace_surrogates_Cons)
    also have "replace_surrogates (c2 # r2) = c2 # replace_surrogates r2" by (rule c [OF c2])
    finally show ?thesis using ih bs by simp
  next
    case four
    with 2(5) obtain c1 c2 c3 r3 where bs: "bs = c1 # c2 # c3 # r3"
      and c1: "in_range c1 (lower_boundary b) (upper_boundary b)" and c2: "continuation c2"
      and c3: "continuation c3" and v: "valid_utf8 r3"
      by (auto split: list.splits)
    have ih: "replace_surrogates r3 = r3" using 2(4) [OF four bs] v by simp
    have b: "unat b \<noteq> 0xED" using four(4) by (simp add: in_range_def)
    have e: "unat c1 \<noteq> 0xED" using c1 upper_boundary_le [of b] by (simp add: in_range_def)
    have "replace_surrogates (b # c1 # c2 # c3 # r3) = b # replace_surrogates (c1 # c2 # c3 # r3)"
      using b by (rule replace_surrogates_Cons)
    also have "replace_surrogates (c1 # c2 # c3 # r3) = c1 # replace_surrogates (c2 # c3 # r3)"
      using e by (rule replace_surrogates_Cons)
    also have "replace_surrogates (c2 # c3 # r3) = c2 # replace_surrogates (c3 # r3)"
      by (rule c [OF c2])
    also have "replace_surrogates (c3 # r3) = c3 # replace_surrogates r3" by (rule c [OF c3])
    finally show ?thesis using ih bs by simp
  next
    case bad
    with 2(5) show ?thesis by simp
  qed
qed

lemma utf8_decode_encode: "well_formed s \<Longrightarrow> utf8_decode (utf8_encode s) = s"
  by (simp add: utf8_decode_def utf8_encode_def well_formed_def replace_surrogates_valid
      utf8_sanitize_valid comp_def char_byte)

lemma unat_byte_less: "unat (b :: byte) < 256"
  using unsigned_less [of b, where ?'a = nat] by simp


lemma hex_val_hex_digit: "n < 16 \<Longrightarrow> hex_val (hex_digit n) = Some n"
  by (auto simp add: hex_val_def hex_digit_def Let_def)


lemma byte_of_nibbles: "word_of_nat (16 * (unat b div 16) + unat b mod 16) = (b :: byte)"
  by simp


lemma hex_decode_encode: "hex_decode (hex_encode bs) = bs"
proof (induction bs)
  case Nil
  show ?case by simp
next
  case (Cons b bs)
  have "unat b div 16 < 16" "unat b mod 16 < 16" using unat_byte_less [of b] by auto
  then have "hex_val (hex_digit (unat b div 16)) = Some (unat b div 16)"
    "hex_val (hex_digit (unat b mod 16)) = Some (unat b mod 16)"
    by (simp_all add: hex_val_hex_digit)
  with Cons show ?case by (simp del: of_nat_add of_nat_mult add: byte_of_nibbles)
qed

lemma hex_encode_Nil_iff: "hex_encode bs = [] \<longleftrightarrow> bs = []"
  by (cases bs) simp_all

lemma length_hex_encode: "length (hex_encode bs) = 2 * length bs"
  by (induction bs) simp_all









subsection \<open>Characters and their replacement\<close>



lemma js_length_ascii:
  assumes "\<forall>c\<in>set s. (of_char c :: nat) < 0x80"
  shows "js_length s = length s"
proof -
  have "\<not> continuation (of_char c)" "\<not> in_range (of_char c) 0xF0 0xFF" if "c \<in> set s" for c
    using assms that by (auto simp add: continuation_def in_range_def unat_of_char)
  then have "filter (\<lambda>c. \<not> continuation (of_char c)) s = s"
    "filter (\<lambda>c. in_range (of_char c) 0xF0 0xFF) s = []"
    by (simp_all add: filter_id_conv filter_empty_conv)
  then show ?thesis by (simp add: js_length_def)
qed


lemma hex_digit_ascii: "n < 16 \<Longrightarrow> (of_char (hex_digit n) :: nat) < 0x80"
  by (auto simp add: hex_digit_def)

lemma hex_encode_ascii: "\<forall>c\<in>set (hex_encode bs). (of_char c :: nat) < 0x80"
proof (induction bs)
  case Nil
  then show ?case by simp
next
  case (Cons b bs)
  have lt: "unat b div 16 < 16" "unat b mod 16 < 16" using unat_byte_less [of b] by auto
  with Cons show ?case by (simp add: hex_digit_ascii)
qed




section \<open>Expiry is checked before the cryptographic unwrap\<close>

lemma decrypt_expired_iff:
  "decrypt P svc now ev = Inl ExpiredError \<longleftrightarrow> expired P now (expires_at ev)"
  by (simp add: decrypt_def Let_def split: option.splits)

text \<open>
  Claim C5. An envelope whose \<open>expires_at\<close> is set (a non-empty string) and denotes a
  time strictly before the clock makes \<open>decrypt\<close> fail with the expiry error whatever
  the decipher would answer on its key, IV, tag and ciphertext (the decipher \<open>d\<close> is
  arbitrary, so it is never consulted); an envelope with no \<open>expires_at\<close>, or with one
  strictly after the clock, never makes \<open>decrypt\<close> fail with the expiry error.
\<close>

theorem decrypt_expiry_first:
  "(expires_at ev = Some s \<and> s \<noteq> [] \<and> date_parse P s = Some t \<and> t < now
      \<longrightarrow> decrypt (P\<lparr>decipher := d\<rparr>) svc now ev = Inl ExpiredError)
   \<and> (expires_at ev = None \<or> (expires_at ev = Some s \<and> date_parse P s = Some t \<and> now < t)
      \<longrightarrow> decrypt (P\<lparr>decipher := d\<rparr>) svc now ev \<noteq> Inl ExpiredError)"
  by (auto simp add: decrypt_expired_iff expired_def)

text \<open>A concrete run of claim C5: one envelope that expired at 1000, read at 2000 with a
  decipher that accepts everything, and the same envelope with a later expiry and with
  none.\<close>

theorem decrypt_expiry_first_witness:
  "decrypt (ref_platform\<lparr>decipher := (\<lambda>alg k ivb t c. Some c)\<rparr>) ref_service 2000 example_envelope
     = Inl ExpiredError
   \<and> decrypt (ref_platform\<lparr>decipher := (\<lambda>alg k ivb t c. Some c)\<rparr>) ref_service 2000
         (example_envelope\<lparr>expires_at := Some ''3000''\<rparr>) \<noteq> Inl ExpiredError
   \<and> decrypt (ref_platform\<lparr>decipher := (\<lambda>alg k ivb t c. Some c)\<rparr>) ref_service 2000
         (example_envelope\<lparr>expires_at := None\<rparr>) \<noteq> Inl ExpiredError"
proof -
  have h1: "expires_at example_envelope = Some ''1000'' \<and> ''1000'' \<noteq> []
      \<and> date_parse ref_platform ''1000'' = Some 1000 \<and> (1000::int) < 2000"
    by code_simp
  have h2: "expires_at (example_envelope\<lparr>expires_at := Some ''3000''\<rparr>) = Some ''3000''
      \<and> date_parse ref_platform ''3000'' = Some 3000 \<and> (2000::int) < 3000"
    by code_simp
  have h3: "expires_at (example_envelope\<lparr>expires_at := None\<rparr>) = None"
    by simp
  from h1 h2 h3
    decrypt_expiry_first [of example_envelope "''1000''" ref_platform 1000 2000]
    decrypt_expiry_first [of "example_envelope\<lparr>expires_at := Some ''3000''\<rparr>" "''3000''" ref_platform 3000 2000]
    decrypt_expiry_first [of "example_envelope\<lparr>expires_at := None\<rparr>" "''3000''" ref_platform 3000 2000]
  show ?thesis by blast
qed

section \<open>Round trip of encrypt and decrypt\<close>

lemma tag_bytes_encode: "(if hex_encode t \<noteq> [] then hex_decode (hex_encode t) else []) = t"
  by (cases t) (simp_all add: hex_decode_encode del: hex_encode.simps hex_decode.simps, simp)

lemma even_js_length_hex_encode: "even (js_length (hex_encode bs))"
  by (simp add: js_length_ascii [OF hex_encode_ascii] length_hex_encode)

lemma decrypt_encrypt_raw:
  assumes "decipher P algorithm_name (key svc) ivb
             (snd (cipher P algorithm_name (key svc) ivb (utf8_encode plaintext)))
             (fst (cipher P algorithm_name (key svc) ivb (utf8_encode plaintext))) = Some (utf8_encode plaintext)"
    and "\<not> expired P now' (map_option (toISOString P) expiresAt)"
  shows "decrypt P svc now' (encrypt P svc ivb now plaintext expiresAt)
           = Inr (utf8_decode (utf8_encode plaintext))"
  using assms
  by (simp add: decrypt_def encrypt_def Let_def split_beta hex_decode_encode tag_bytes_encode
      even_js_length_hex_encode)

lemma decrypt_encrypt_gcm:
  assumes "gcm_correct P (key svc)"
    and "expiresAt = None \<or> (\<exists>t. expiresAt = Some t \<and> date_parse P (toISOString P t) = Some t \<and> now' \<le> t)"
  shows "decrypt P svc now' (encrypt P svc ivb now plaintext expiresAt)
           = Inr (utf8_decode (utf8_encode plaintext))"
proof (rule decrypt_encrypt_raw)
  show "decipher P algorithm_name (key svc) ivb
             (snd (cipher P algorithm_name (key svc) ivb (utf8_encode plaintext)))
             (fst (cipher P algorithm_name (key svc) ivb (utf8_encode plaintext))) = Some (utf8_encode plaintext)"
    using assms(1) by (simp add: gcm_correct_def)
  show "\<not> expired P now' (map_option (toISOString P) expiresAt)"
    using assms(2) by (auto simp add: expired_def)
qed

text \<open>
  Claim C2, as the code has it. On an engine whose cipher is correct, decrypting the
  envelope that \<open>encrypt\<close> produced for a plaintext, when the envelope carries no expiry
  or one that the clock \<open>now'\<close> of the decryption has not passed, returns the plaintext
  as the \<open>utf8\<close> encoder and decoder hand it on: with U+FFFD in the place of every
  unpaired surrogate. For every plaintext without unpaired surrogate (the empty string
  and text with characters of several bytes included) that is the plaintext itself.
\<close>

theorem decrypt_encrypt:
  assumes "gcm_correct P (key svc)"
    and "expiresAt = None \<or> (\<exists>t. expiresAt = Some t \<and> date_parse P (toISOString P t) = Some t \<and> now' \<le> t)"
  shows "decrypt P svc now' (encrypt P svc ivb now plaintext expiresAt)
           = Inr (utf8_decode (utf8_encode plaintext))
       \<and> (well_formed plaintext \<longrightarrow>
            decrypt P svc now' (encrypt P svc ivb now plaintext expiresAt) = Inr plaintext)"
  using decrypt_encrypt_gcm [OF assms] by (simp add: utf8_decode_encode)

lemma length_ref_tag: "length (ref_tag k ivb c) = 16"
  by (simp add: ref_tag_def)

lemma tag_accepted_refl: "length t = 16 \<Longrightarrow> tag_accepted t t"
  by (simp add: tag_accepted_def tag_lengths_def)

lemma gcm_correct_ref: "gcm_correct ref_platform k"
  by (simp add: gcm_correct_def ref_platform_def ref_cipher_def ref_decipher_def Let_def comp_def
      tag_accepted_refl length_ref_tag)

text \<open>Claim C2 as stated fails: the string of one unpaired surrogate, U+D800, comes
  back from \<open>decrypt\<close> as U+FFFD.\<close>

theorem decrypt_encrypt_counterexample:
  "decrypt ref_platform ref_service 600
      (encrypt ref_platform ref_service [1, 2, 3] 500 lone_surrogate None)
     = Inr replacement_character
   \<and> replacement_character \<noteq> lone_surrogate"
proof -
  have "utf8_decode (utf8_encode lone_surrogate) = replacement_character
      \<and> replacement_character \<noteq> lone_surrogate"
    by code_simp
  then show ?thesis
    using decrypt_encrypt_gcm [where P = ref_platform and svc = ref_service
        and expiresAt = None and now' = 600 and ivb = "[1, 2, 3]" and now = 500
        and plaintext = lone_surrogate, OF gcm_correct_ref]
    by simp
qed

text \<open>A concrete run of claim C2: a text with a three-byte and a four-byte character
  under an expiry in the future, and the empty string without expiry.\<close>

theorem decrypt_encrypt_witness:
  "decrypt ref_platform ref_service 600
      (encrypt ref_platform ref_service [1, 2, 3] 500 multibyte_text (Some 1000)) = Inr multibyte_text
   \<and> decrypt ref_platform ref_service 600
      (encrypt ref_platform ref_service [1, 2, 3] 500 [] None) = Inr []"
proof -
  have "date_parse ref_platform (toISOString ref_platform 1000) = Some 1000 \<and> (600::int) \<le> 1000"
    by code_simp
  then have h: "Some (1000::int) = None \<or> (\<exists>t. Some 1000 = Some t
      \<and> date_parse ref_platform (toISOString ref_platform t) = Some t \<and> 600 \<le> t)"
    by simp
  have w: "well_formed multibyte_text" "well_formed []"
    by code_simp+
  show ?thesis
    using w
      decrypt_encrypt [where P = ref_platform and svc = ref_service
        and expiresAt = "Some 1000" and now' = 600 and ivb = "[1, 2, 3]" and now = 500
        and plaintext = multibyte_text, OF gcm_correct_ref h]
      decrypt_encrypt [where P = ref_platform and svc = ref_service
        and expiresAt = None and now' = 600 and ivb = "[1, 2, 3]" and now = 500
        and plaintext = "[]", OF gcm_correct_ref]
    by blast
qed

section \<open>Tamper detection\<close>







section \<open>Lemmas on the operations\<close>

lemma io_bind_ret [simp]: "io_bind (io_ret x) f = f x"
  by (simp add: io_bind_def io_ret_def)

lemma io_bind_throw [simp]: "io_bind (io_throw e) f = io_throw e"
  by (simp add: io_bind_def io_throw_def)

lemma io_ret_run [simp]: "io_ret x w = (Inr x, w)"
  by (simp add: io_ret_def)

lemma io_throw_run [simp]: "io_throw e w = (Inl e, w)"
  by (simp add: io_throw_def)

lemma io_bind_Inr:
  assumes "io_bind m f w = (Inr y, w'')"
  obtains x w' where "m w = (Inr x, w')" and "f x w' = (Inr y, w'')"
  using assms by (auto simp add: io_bind_def split: prod.splits sum.splits)

lemma io_bind_run: "m w = (Inr x, w') \<Longrightarrow> io_bind m f w = f x w'"
  by (simp add: io_bind_def)

lemma io_bind_run_Inl: "m w = (Inl e, w') \<Longrightarrow> io_bind m f w = (Inl e, w')"
  by (simp add: io_bind_def)

subsection \<open>never_throws\<close>

lemma never_throws_ret: "never_throws e (io_ret x)"
  by (simp add: never_throws_def)

lemma never_throws_throw: "e' \<noteq> e \<Longrightarrow> never_throws e (io_throw e')"
  by (simp add: never_throws_def)

lemma never_throws_bind:
  "never_throws e m \<Longrightarrow> (\<And>x. never_throws e (f x)) \<Longrightarrow> never_throws e (io_bind m f)"
  by (auto simp add: never_throws_def io_bind_def split: prod.splits sum.splits)
     (metis fst_conv)+

lemma never_throws_catch:
  "(\<And>e'. never_throws e (h e')) \<Longrightarrow> never_throws e (io_catch m h)"
  by (auto simp add: never_throws_def io_catch_def split: prod.splits sum.splits)


lemma never_throws_cacheGet: "never_throws e (cacheGet P k)"
  unfolding cacheGet_def by (rule never_throws_catch) (rule never_throws_ret)

lemma never_throws_cacheSet: "never_throws e (cacheSet P k v ttl)"
  unfolding cacheSet_def by (rule never_throws_catch) (rule never_throws_ret)

lemma never_throws_cacheDelete: "never_throws e (cacheDelete k)"
  unfolding cacheDelete_def by (rule never_throws_catch) (rule never_throws_ret)

lemma never_throws_createAuditLog: "never_throws e (createAuditLog P d)"
  unfolding createAuditLog_def
  by (intro never_throws_bind never_throws_catch never_throws_ret)
     (simp_all add: never_throws_def randomUUID_def now_io_def)

lemma never_throws_find:
  "never_throws CacheBackendError (findByUserAndWorkspace t u ws)"
  "never_throws SyntaxError (findByUserAndWorkspace t u ws)"
  by (simp_all add: never_throws_def findByUserAndWorkspace_def)

lemma never_throws_findById:
  "never_throws CacheBackendError (findById t i)"
  "never_throws SyntaxError (findById t i)"
  by (auto simp add: never_throws_def findById_def split: list.splits)

lemma never_throws_insert_row:
  "never_throws CacheBackendError (insert_row t d)"
  "never_throws SyntaxError (insert_row t d)"
  by (simp_all add: never_throws_def insert_row_def)

lemma never_throws_update_row:
  "never_throws CacheBackendError (update_row t i d)"
  "never_throws SyntaxError (update_row t i d)"
  by (auto simp add: never_throws_def update_row_def Let_def split: list.splits)

lemma encrypt_fields_error:
  "encrypt_fields P svc rnd now ex obj fs n result = Inl e \<Longrightarrow> e = TypeError"
  by (induction P svc rnd now ex obj fs n result rule: encrypt_fields.induct)
     (auto simp add: Let_def split: option.splits json.splits)

lemma never_throws_encryptObject_io:
  "e \<noteq> TypeError \<Longrightarrow> never_throws e (encryptObject_io P svc doc fs)"
  by (auto simp add: never_throws_def encryptObject_io_def encryptObject_def
      split: json.splits sum.splits dest: encrypt_fields_error)

lemma never_throws_getSecretContext:
  "never_throws CacheBackendError (getSecretContext P ws u)"
  "never_throws SyntaxError (getSecretContext P ws u)"
  unfolding getSecretContext_def
  by (auto intro!: never_throws_bind never_throws_cacheGet never_throws_ret never_throws_find
      never_throws_cacheSet split: list.splits)


lemma never_throws_simple:
  "never_throws e now_io" "never_throws e randomUUID" "never_throws e randomBytes12"
  by (simp_all add: never_throws_def now_io_def randomUUID_def randomBytes12_def)

lemma never_throws_encrypt_io: "never_throws e (encrypt_io P svc v ex)"
  unfolding encrypt_io_def
  by (intro never_throws_bind never_throws_ret never_throws_simple)

lemma never_throws_createEmpty: "never_throws e (createEmptySecretContext P ws u)"
  unfolding createEmptySecretContext_def
  by (intro never_throws_bind never_throws_ret never_throws_simple)

lemma never_throws_load_or_create:
  "never_throws CacheBackendError (load_or_create P ws u)"
  "never_throws SyntaxError (load_or_create P ws u)"
  unfolding load_or_create_def
  by (auto intro!: never_throws_bind never_throws_getSecretContext never_throws_ret
      never_throws_createEmpty split: option.splits)

lemma never_throws_set_entry: "e \<noteq> TypeError \<Longrightarrow> never_throws e (set_entry c m k v)"
  unfolding set_entry_def
  by (auto intro!: never_throws_ret never_throws_throw split: json.splits option.splits)

lemma never_throws_get_entry: "e \<noteq> TypeError \<Longrightarrow> never_throws e (get_entry c m k)"
  unfolding get_entry_def
  by (auto intro!: never_throws_ret never_throws_throw split: json.splits option.splits)

lemma never_throws_entries_of: "e \<noteq> TypeError \<Longrightarrow> never_throws e (entries_of c m)"
  unfolding entries_of_def
  by (auto intro!: never_throws_ret never_throws_throw split: json.splits option.splits)

lemma never_throws_set_updated_at: "e \<noteq> TypeError \<Longrightarrow> never_throws e (set_updated_at P c)"
  unfolding set_updated_at_def
  by (auto intro!: never_throws_bind never_throws_simple never_throws_ret never_throws_throw
      split: json.splits)

lemma never_throws_saveSecretContext:
  "never_throws CacheBackendError (saveSecretContext P svc c)"
  "never_throws SyntaxError (saveSecretContext P svc c)"
  unfolding saveSecretContext_def
  by (auto intro!: never_throws_bind never_throws_encryptObject_io never_throws_findById
      never_throws_update_row never_throws_insert_row never_throws_ret)

lemmas never_throws_intros =
  never_throws_bind never_throws_ret never_throws_simple never_throws_encrypt_io
  never_throws_load_or_create never_throws_set_entry never_throws_get_entry
  never_throws_entries_of never_throws_set_updated_at never_throws_saveSecretContext
  never_throws_createAuditLog never_throws_cacheDelete never_throws_getSecretContext
  never_throws_throw

lemma never_throws_storeCredential:
  "never_throws CacheBackendError (storeCredential P svc ws u k v ty pr ex)"
  "never_throws SyntaxError (storeCredential P svc ws u k v ty pr ex)"
  unfolding storeCredential_def
  by (auto intro!: never_throws_intros)

lemma never_throws_storeSSHKey:
  "never_throws CacheBackendError (storeSSHKey P svc ws u k v pub kt md)"
  "never_throws SyntaxError (storeSSHKey P svc ws u k v pub kt md)"
  unfolding storeSSHKey_def
  by (auto intro!: never_throws_intros)

lemma never_throws_getCredential:
  "never_throws CacheBackendError (getCredential P svc ws u k)"
  "never_throws SyntaxError (getCredential P svc ws u k)"
  unfolding getCredential_def
  by (auto intro!: never_throws_intros split: option.splits sum.splits)

lemma never_throws_getSSHKey:
  "never_throws CacheBackendError (getSSHKey P svc ws u k)"
  "never_throws SyntaxError (getSSHKey P svc ws u k)"
  unfolding getSSHKey_def
  by (auto intro!: never_throws_intros split: option.splits sum.splits)

lemma never_throws_listSecrets:
  "never_throws CacheBackendError (listSecrets P ws u)"
  "never_throws SyntaxError (listSecrets P ws u)"
  unfolding listSecrets_def
  by (auto intro!: never_throws_intros split: option.splits)

lemma never_throws_deleteSecret:
  "never_throws CacheBackendError (deleteSecret P svc ws u ty k)"
  "never_throws SyntaxError (deleteSecret P svc ws u ty k)"
  unfolding deleteSecret_def
  by (auto intro!: never_throws_intros split: option.splits)

lemma cacheGet_down: "backend_fails w \<Longrightarrow> fst (cacheGet P k w) = Inr None"
  by (simp add: cacheGet_def io_catch_def io_bind_def backend_get_def)

lemma cacheGet_returns: "\<exists>r. fst (cacheGet P k w) = Inr r"
  by (auto simp add: cacheGet_def io_catch_def io_bind_def backend_get_def JSON_parse_io_def
      split: option.splits)

lemma cacheSet_returns: "fst (cacheSet P k v ttl w) = Inr ()"
  by (simp add: cacheSet_def io_catch_def backend_set_def)

lemma cacheDelete_returns: "fst (cacheDelete k w) = Inr ()"
  by (simp add: cacheDelete_def io_catch_def backend_del_def)

subsection \<open>Effects of the steps\<close>

lemma encrypt_io_run:
  "encrypt_io P svc v ex w =
     (Inr (encrypt P svc (entropy w (drawn w)) (clock w) v ex), w\<lparr>drawn := Suc (drawn w)\<rparr>)"
  by (simp add: encrypt_io_def io_bind_def randomBytes12_def now_io_def)

lemma cacheDelete_run:
  "cacheDelete k w =
     (Inr (), if backend_fails w then emit (CacheDelete k) w
              else emit (CacheDelete k) (w\<lparr>cache_store := (cache_store w)(k := None)\<rparr>))"
  by (simp add: cacheDelete_def io_catch_def backend_del_def)

lemma createAuditLog_run:
  "createAuditLog P d w =
     (Inr (),
      if db_down w ''audit_logs''
      then emit (DbInsert ''audit_logs'') (w\<lparr>drawn := Suc (drawn w)\<rparr>)
      else emit (DbInsert ''audit_logs'')
             (w\<lparr>drawn := Suc (drawn w),
                tables := (tables w)(''audit_logs'' :=
                  tables w ''audit_logs'' @ [audit_doc P d (uuids w (drawn w)) (clock w)])\<rparr>))"
  by (simp add: createAuditLog_def io_bind_def io_catch_def randomUUID_def now_io_def
      insert_row_def)

lemma set_entry_world: "set_entry c m k v w = (r, w') \<Longrightarrow> w' = w"
  by (auto simp add: set_entry_def io_ret_def io_throw_def
      split: json.splits option.splits if_splits)

lemma set_updated_at_world: "set_updated_at P c w = (r, w') \<Longrightarrow> w' = w"
  by (auto simp add: set_updated_at_def io_bind_def now_io_def split: json.splits)

lemma get_entry_world: "get_entry c m k w = (r, w') \<Longrightarrow> w' = w"
  by (auto simp add: get_entry_def split: json.splits option.splits)

lemma cacheGet_effect:
  assumes "cacheGet P k w = (r, w')"
  shows "w' = emit (CacheGet k) w"
  using assms
  by (auto simp add: cacheGet_def io_catch_def io_bind_def backend_get_def JSON_parse_io_def
      split: option.splits if_splits)

lemma cacheSet_effect:
  "cacheSet P k v ttl w =
     (Inr (), if backend_fails w then emit (CacheSet k) w
              else emit (CacheSet k) (w\<lparr>cache_store := (cache_store w)(k := Some (JSON_stringify P v))\<rparr>))"
  by (simp add: cacheSet_def io_catch_def backend_set_def)

lemma getSecretContext_effect:
  assumes "getSecretContext P ws u w = (r, w')"
  shows "tables w' = tables w \<and> db_down w' = db_down w \<and> cache_down w' = cache_down w
    \<and> useInMemoryCache w' = useInMemoryCache w \<and> clock w' = clock w \<and> entropy w' = entropy w
    \<and> uuids w' = uuids w \<and> drawn w' = drawn w \<and> (\<exists>pre. trace w' = trace w @ pre)"
proof -
  obtain c w1 where c: "cacheGet P (secret_cache_key ws u) w = (c, w1)"
    by (cases "cacheGet P (secret_cache_key ws u) w")
  have w1: "w1 = emit (CacheGet (secret_cache_key ws u)) w" using c by (rule cacheGet_effect)
  show ?thesis
    using assms c
    by (auto simp add: getSecretContext_def io_bind_def w1 emit_def findByUserAndWorkspace_def
        cacheSet_effect backend_fails_def
        split: sum.splits option.splits list.splits if_splits)
qed


lemma createEmpty_run:
  "createEmptySecretContext P ws u w =
     (Inr (JObj [(''id'', JStr (uuids w (drawn w))),
                 (''workspace_id'', JStr ws),
                 (''user_id'', JStr u),
                 (''api_keys'', JObj []),
                 (''credentials'', JObj []),
                 (''ssh_keys'', JObj []),
                 (''certificates'', JObj []),
                 (''created_at'', JStr (toISOString P (clock w))),
                 (''updated_at'', JStr (toISOString P (clock w)))]),
      w\<lparr>drawn := Suc (drawn w)\<rparr>)"
  by (simp add: createEmptySecretContext_def io_bind_def randomUUID_def now_io_def)

lemma load_or_create_effect:
  assumes "load_or_create P ws u w = (r, w')"
  shows "tables w' = tables w \<and> db_down w' = db_down w \<and> cache_down w' = cache_down w
    \<and> useInMemoryCache w' = useInMemoryCache w \<and> clock w' = clock w \<and> entropy w' = entropy w
    \<and> uuids w' = uuids w \<and> (\<exists>pre. trace w' = trace w @ pre)"
proof -
  obtain g w1 where g: "getSecretContext P ws u w = (g, w1)"
    by (cases "getSecretContext P ws u w")
  note e = getSecretContext_effect [OF g]
  show ?thesis
    using assms g e
    by (auto simp add: load_or_create_def io_bind_def createEmpty_run
        split: sum.splits option.splits if_splits)
qed

lemma saveSecretContext_Inr:
  assumes "saveSecretContext P svc c w = (Inr x, w')"
  shows "\<exists>fs enc n.
      c = JObj fs
      \<and> encryptObject P svc (entropy w) (drawn w) (clock w) fs
            [''credentials'', ''ssh_keys'', ''certificates''] None = Inr (enc, n)
      \<and> drawn w' = n \<and> cache_store w' = cache_store w \<and> db_down w' = db_down w
      \<and> cache_down w' = cache_down w \<and> useInMemoryCache w' = useInMemoryCache w
      \<and> clock w' = clock w \<and> entropy w' = entropy w \<and> uuids w' = uuids w
      \<and> ((trace w' = trace w @ [DbSelect ''secret_contexts'', DbInsert ''secret_contexts'']
           \<and> tables w' = (tables w)(''secret_contexts'' :=
                 tables w ''secret_contexts'' @ [JObj enc]))
         \<or> (trace w' = trace w @ [DbSelect ''secret_contexts'', DbUpdate ''secret_contexts'']
           \<and> tables w' = (tables w)(''secret_contexts'' :=
                 map (\<lambda>row. if has_id (obj_get fs ''id'') row then merge_row row (JObj enc) else row)
                   (tables w ''secret_contexts''))))"
  using assms
  by (auto simp add: saveSecretContext_def io_bind_def encryptObject_io_def findById_def
      insert_row_def update_row_def emit_def Let_def
      split: json.splits sum.splits prod.splits if_splits list.splits option.splits)


lemma write_path_Inr:
  assumes "write_path P svc ws u mapname name entry logData w = (Inr x, w')"
  shows "\<exists>ctx w2 ctx1 ctx2 w4.
      load_or_create P ws u w = (Inr ctx, w2)
    \<and> set_entry ctx mapname name entry w2 = (Inr ctx1, w2)
    \<and> set_updated_at P ctx1 w2 = (Inr ctx2, w2)
    \<and> saveSecretContext P svc ctx2 w2 = (Inr (), w4)
    \<and> w' = snd (cacheDelete (secret_cache_key ws u) (snd (createAuditLog P logData w4)))"
proof -
  from assms obtain ctx w2 where
    b: "load_or_create P ws u w = (Inr ctx, w2)" and
    r2: "io_bind (set_entry ctx mapname name entry) (\<lambda>ctx1.
           io_bind (set_updated_at P ctx1) (\<lambda>ctx2.
           io_bind (saveSecretContext P svc ctx2) (\<lambda>r.
           io_bind (createAuditLog P logData) (\<lambda>r.
           cacheDelete (secret_cache_key ws u))))) w2 = (Inr x, w')"
    unfolding write_path_def by (rule io_bind_Inr)
  from r2 obtain ctx1 w3 where
    c: "set_entry ctx mapname name entry w2 = (Inr ctx1, w3)" and
    r3: "io_bind (set_updated_at P ctx1) (\<lambda>ctx2.
           io_bind (saveSecretContext P svc ctx2) (\<lambda>r.
           io_bind (createAuditLog P logData) (\<lambda>r.
           cacheDelete (secret_cache_key ws u)))) w3 = (Inr x, w')"
    by (rule io_bind_Inr)
  have w3: "w3 = w2" using c by (rule set_entry_world)
  from r3 obtain ctx2 w3' where
    d: "set_updated_at P ctx1 w3 = (Inr ctx2, w3')" and
    r4: "io_bind (saveSecretContext P svc ctx2) (\<lambda>r.
           io_bind (createAuditLog P logData) (\<lambda>r.
           cacheDelete (secret_cache_key ws u))) w3' = (Inr x, w')"
    by (rule io_bind_Inr)
  have w3': "w3' = w3" using d by (rule set_updated_at_world)
  from r4 obtain y w4 where
    e: "saveSecretContext P svc ctx2 w3' = (Inr y, w4)" and
    r5: "io_bind (createAuditLog P logData) (\<lambda>r.
           cacheDelete (secret_cache_key ws u)) w4 = (Inr x, w')"
    by (rule io_bind_Inr)
  from r5 have f: "w' = snd (cacheDelete (secret_cache_key ws u) (snd (createAuditLog P logData w4)))"
    by (simp add: io_bind_def createAuditLog_run cacheDelete_run split: if_splits)
  from b c d e f show ?thesis unfolding w3 w3' by auto
qed

lemma storeCredential_write_path:
  "storeCredential P svc ws u name secret ty pr ex w =
     write_path P svc ws u ''credentials'' name
       (credential_entry (encrypt P svc (entropy w (drawn w)) (clock w) secret ex) ty pr u name)
       (store_credential_log P ws u name secret) (w\<lparr>drawn := Suc (drawn w)\<rparr>)"
  unfolding storeCredential_def storeSSHKey_def write_path_def
  by (simp only: io_bind_run [OF encrypt_io_run])

lemma storeSSHKey_write_path:
  "storeSSHKey P svc ws u name secret pub kt md w =
     write_path P svc ws u ''ssh_keys'' name
       (ssh_key_entry P (encrypt P svc (entropy w (drawn w)) (clock w) secret None) kt pub md)
       (access_log ws u ''store_ssh_key'' name ''success'' None) (w\<lparr>drawn := Suc (drawn w)\<rparr>)"
  by (simp add: storeSSHKey_def write_path_def io_bind_run [OF encrypt_io_run])

lemma write_path_trace:
  assumes "write_path P svc ws u mapname name entry logData w = (Inr x, w')"
  shows "\<exists>pre persist.
      trace w' = trace w @ pre @ [persist, DbInsert ''audit_logs'', CacheDelete (secret_cache_key ws u)]
      \<and> (persist = DbInsert ''secret_contexts'' \<or> persist = DbUpdate ''secret_contexts'')"
proof -
  from write_path_Inr [OF assms] obtain ctx w2 ctx1 ctx2 w4 where
    b: "load_or_create P ws u w = (Inr ctx, w2)" and
    e: "saveSecretContext P svc ctx2 w2 = (Inr (), w4)" and
    f: "w' = snd (cacheDelete (secret_cache_key ws u) (snd (createAuditLog P logData w4)))"
    by blast
  from load_or_create_effect [OF b] obtain pre where pre: "trace w2 = trace w @ pre" by blast
  from saveSecretContext_Inr [OF e] obtain persist where
    p: "trace w4 = trace w2 @ [DbSelect ''secret_contexts'', persist]"
      "persist = DbInsert ''secret_contexts'' \<or> persist = DbUpdate ''secret_contexts''"
    by blast
  have "trace w' = trace w4 @ [DbInsert ''audit_logs'', CacheDelete (secret_cache_key ws u)]"
    unfolding f by (simp add: createAuditLog_run cacheDelete_run emit_def backend_fails_def)
  then have "trace w' = trace w @ (pre @ [DbSelect ''secret_contexts''])
      @ [persist, DbInsert ''audit_logs'', CacheDelete (secret_cache_key ws u)]"
    using pre p(1) by simp
  with p(2) show ?thesis by blast
qed

lemma cacheGet_miss:
  "cache_misses w k \<Longrightarrow> cacheGet P k w = (Inr None, emit (CacheGet k) w)"
  by (auto simp add: cache_misses_def cacheGet_def io_catch_def io_bind_def backend_get_def)

lemma getSecretContext_miss:
  assumes "cache_misses w (secret_cache_key ws u)" "\<not> db_down w ''secret_contexts''"
    "filter (row_of u ws) (tables w ''secret_contexts'') = []"
  shows "getSecretContext P ws u w =
     (Inr None, emit (DbSelect ''secret_contexts'') (emit (CacheGet (secret_cache_key ws u)) w))"
  using assms
  by (simp add: getSecretContext_def cacheGet_miss findByUserAndWorkspace_def
      io_bind_def emit_def)

lemma load_or_create_fresh:
  assumes "cache_misses w (secret_cache_key ws u)" "\<not> db_down w ''secret_contexts''"
    "filter (row_of u ws) (tables w ''secret_contexts'') = []"
  shows "load_or_create P ws u w =
     (Inr (JObj (fresh_context P ws u (uuids w (drawn w)) (clock w))),
      (emit (DbSelect ''secret_contexts'') (emit (CacheGet (secret_cache_key ws u)) w))
        \<lparr>drawn := Suc (drawn w)\<rparr>)"
  by (simp add: load_or_create_def io_bind_def getSecretContext_miss [OF assms]
      createEmpty_run fresh_context_def emit_def)

subsection \<open>Objects\<close>

lemma obj_get_set: "obj_get (obj_set kvs k v) k' = (if k' = k then Some v else obj_get kvs k')"
  by (induction kvs) (auto simp add: obj_get_def)







subsection \<open>encryptObject\<close>

lemma encrypt_fields_step:
  "encrypt_fields P svc rnd now ex obj (f # fs) n result =
     (if encryptable obj f then
        (case obj_get (obj_set result f (envelope_of P svc (rnd n) now ex (the (obj_get obj f)))) bookkeeping of
           Some (JArr names) \<Rightarrow>
             encrypt_fields P svc rnd now ex obj fs (Suc n)
               (obj_set (obj_set result f (envelope_of P svc (rnd n) now ex (the (obj_get obj f))))
                  bookkeeping (JArr (names @ [JStr f])))
         | _ \<Rightarrow> Inl TypeError)
      else encrypt_fields P svc rnd now ex obj fs n result)"
  by (auto simp add: encryptable_def envelope_of_def plaintext_of_def Let_def
      split: option.splits json.splits)

lemma encrypt_fields_spec:
  assumes "encrypt_fields P svc rnd now ex obj fs n result = Inr (result', n')"
    and "obj_get result bookkeeping = Some (JArr names)"
  shows "obj_get result' bookkeeping = Some (JArr (names @ map JStr (filter (encryptable obj) fs)))
    \<and> (\<forall>g. g \<noteq> bookkeeping \<and> \<not> (g \<in> set fs \<and> encryptable obj g) \<longrightarrow> obj_get result' g = obj_get result g)
    \<and> (\<forall>f. f \<in> set fs \<and> encryptable obj f \<longrightarrow>
          (\<exists>j. obj_get result' f = Some (envelope_of P svc (rnd j) now ex (the (obj_get obj f)))))
    \<and> n' = n + length (filter (encryptable obj) fs)
    \<and> bookkeeping \<notin> set (filter (encryptable obj) fs)"
  using assms
proof (induction fs arbitrary: n result names)
  case Nil
  then show ?case by simp
next
  case (Cons f fs)
  show ?case
  proof (cases "encryptable obj f")
    case False
    with Cons.prems have "encrypt_fields P svc rnd now ex obj fs n result = Inr (result', n')"
      by (simp add: encrypt_fields_step del: encrypt_fields.simps)
    from Cons.IH [OF this Cons.prems(2)] False show ?thesis by auto
  next
    case True
    let ?r1 = "obj_set result f (envelope_of P svc (rnd n) now ex (the (obj_get obj f)))"
    have fb: "f \<noteq> bookkeeping"
    proof
      assume "f = bookkeeping"
      then have "obj_get ?r1 bookkeeping = Some (envelope_of P svc (rnd n) now ex (the (obj_get obj f)))"
        by (simp add: obj_get_set)
      with Cons.prems(1) True show False
        by (simp add: encrypt_fields_step envelope_of_def del: encrypt_fields.simps)
    qed
    then have g1: "obj_get ?r1 bookkeeping = Some (JArr names)"
      using Cons.prems(2) by (simp add: obj_get_set)
    let ?r2 = "obj_set ?r1 bookkeeping (JArr (names @ [JStr f]))"
    have run: "encrypt_fields P svc rnd now ex obj fs (Suc n) ?r2 = Inr (result', n')"
      using Cons.prems(1) True g1 by (simp add: encrypt_fields_step del: encrypt_fields.simps)
    have g2: "obj_get ?r2 bookkeeping = Some (JArr (names @ [JStr f]))"
      by (simp add: obj_get_set)
    note ih = Cons.IH [OF run g2]
    have a: "obj_get result' bookkeeping
        = Some (JArr (names @ map JStr (filter (encryptable obj) (f # fs))))"
      using ih True by simp
    have b: "obj_get result' g = obj_get result g"
      if "g \<noteq> bookkeeping" "\<not> (g \<in> set (f # fs) \<and> encryptable obj g)" for g
    proof -
      have "g \<noteq> f" using that True by auto
      moreover have "obj_get result' g = obj_get ?r2 g" using ih that by auto
      ultimately show ?thesis using that(1) by (simp add: obj_get_set)
    qed
    have c: "\<exists>j. obj_get result' h = Some (envelope_of P svc (rnd j) now ex (the (obj_get obj h)))"
      if "h \<in> set (f # fs)" "encryptable obj h" for h
    proof (cases "h \<in> set fs")
      case True
      then show ?thesis using ih that(2) by blast
    next
      case False
      then have hf: "h = f" using that(1) by simp
      have "obj_get result' f = obj_get ?r2 f" using ih False hf fb by auto
      then show ?thesis using hf fb by (auto simp add: obj_get_set)
    qed
    have d: "n' = n + length (filter (encryptable obj) (f # fs))" using ih True by simp
    have e: "bookkeeping \<notin> set (filter (encryptable obj) (f # fs))" using ih fb True by auto
    from a b c d e show ?thesis by blast
  qed
qed

lemma encrypt_fields_succeeds:
  assumes "obj_get result bookkeeping = Some (JArr names)"
    and "bookkeeping \<notin> set (filter (encryptable obj) fs)"
  shows "\<exists>result' n'. encrypt_fields P svc rnd now ex obj fs n result = Inr (result', n')"
  using assms
proof (induction fs arbitrary: n result names)
  case Nil
  then show ?case by simp
next
  case (Cons f fs)
  show ?case
  proof (cases "encryptable obj f")
    case False
    with Cons show ?thesis by (simp add: encrypt_fields_step del: encrypt_fields.simps)
  next
    case True
    then have fb: "f \<noteq> bookkeeping" using Cons.prems(2) by auto
    let ?r1 = "obj_set result f (envelope_of P svc (rnd n) now ex (the (obj_get obj f)))"
    let ?r2 = "obj_set ?r1 bookkeeping (JArr (names @ [JStr f]))"
    have g1: "obj_get ?r1 bookkeeping = Some (JArr names)"
      using Cons.prems(1) fb by (simp add: obj_get_set)
    have g2: "obj_get ?r2 bookkeeping = Some (JArr (names @ [JStr f]))"
      by (simp add: obj_get_set)
    have "bookkeeping \<notin> set (filter (encryptable obj) fs)" using Cons.prems(2) True by auto
    from Cons.IH [OF g2 this, of "Suc n"] True g1 show ?thesis
      by (simp add: encrypt_fields_step del: encrypt_fields.simps)
  qed
qed

lemma encryptObject_succeeds:
  assumes "bookkeeping \<notin> set (filter (encryptable obj) fs)"
  shows "\<exists>enc n'. encryptObject P svc rnd n now obj fs ex = Inr (enc, n')"
  unfolding encryptObject_def
  by (rule encrypt_fields_succeeds [OF _ assms]) (simp add: obj_get_set)

lemma encryptObject_spec:
  assumes "encryptObject P svc rnd n now obj fs ex = Inr (enc, n')"
  shows "obj_get enc bookkeeping = Some (JArr (map JStr (filter (encryptable obj) fs)))
    \<and> (\<forall>g. g \<noteq> bookkeeping \<and> \<not> (g \<in> set fs \<and> encryptable obj g) \<longrightarrow> obj_get enc g = obj_get obj g)
    \<and> (\<forall>f. f \<in> set fs \<and> encryptable obj f \<longrightarrow>
          (\<exists>j. obj_get enc f = Some (envelope_of P svc (rnd j) now ex (the (obj_get obj f)))))
    \<and> n' = n + length (filter (encryptable obj) fs)"
proof -
  have b: "obj_get (obj_set obj bookkeeping (JArr [])) bookkeeping = Some (JArr [])"
    by (simp add: obj_get_set)
  from encrypt_fields_spec [OF assms [unfolded encryptObject_def] b]
  show ?thesis by (auto simp add: obj_get_set)
qed

lemma saveSecretContext_insert:
  assumes "encryptObject P svc (entropy w) (drawn w) (clock w) fs
             [''credentials'', ''ssh_keys'', ''certificates''] None = Inr (enc, n)"
    and "\<not> db_down w ''secret_contexts''"
    and "filter (has_id (obj_get fs ''id'')) (tables w ''secret_contexts'') = []"
  shows "saveSecretContext P svc (JObj fs) w =
     (Inr (),
      w\<lparr>drawn := n,
        tables := (tables w)(''secret_contexts'' := tables w ''secret_contexts'' @ [JObj enc]),
        trace := trace w @ [DbSelect ''secret_contexts'', DbInsert ''secret_contexts'']\<rparr>)"
  using assms
  by (simp add: saveSecretContext_def io_bind_def encryptObject_io_def findById_def
      insert_row_def emit_def)


lemma io_bind_eq: "m w = (Inr x, w1) \<Longrightarrow> f x w1 = r \<Longrightarrow> io_bind m f w = r"
  by (simp add: io_bind_def)

lemma audit_then_delete:
  "io_bind (createAuditLog P d) (\<lambda>r. cacheDelete k) w =
     (Inr (), snd (cacheDelete k (snd (createAuditLog P d w))))"
  by (simp add: io_bind_def createAuditLog_run cacheDelete_run)

lemma set_entry_fresh:
  assumes "mapname = ''credentials'' \<or> mapname = ''ssh_keys''"
  shows "set_entry (JObj (fresh_context P ws u uuid t)) mapname name entry w =
     (Inr (JObj (obj_set (fresh_context P ws u uuid t) mapname (JObj (first_entries name entry)))), w)"
  using assms
  by (auto simp add: set_entry_def fresh_context_def obj_get_def first_entries_def io_ret_def)

lemma set_updated_at_obj:
  "set_updated_at P (JObj fs) w =
     (Inr (JObj (obj_set fs ''updated_at'' (JStr (toISOString P (clock w))))), w)"
  by (simp add: set_updated_at_def io_bind_def now_io_def)

lemma first_context_get:
  assumes "mapname = ''credentials'' \<or> mapname = ''ssh_keys''"
  shows "obj_get (first_context P ws u uuid t mapname name entry) ''id'' = Some (JStr uuid)"
    "obj_get (first_context P ws u uuid t mapname name entry) ''user_id'' = Some (JStr u)"
    "obj_get (first_context P ws u uuid t mapname name entry) ''workspace_id'' = Some (JStr ws)"
    "obj_get (first_context P ws u uuid t mapname name entry) mapname
       = Some (JObj (first_entries name entry))"
    "encryptable (first_context P ws u uuid t mapname name entry) mapname"
  using assms
  by (auto simp add: first_context_def obj_get_set fresh_context_def obj_get_def encryptable_def)

lemma first_context_bookkeeping:
  "bookkeeping \<notin> set (filter (encryptable (first_context P ws u uuid t mapname name entry))
      [''credentials'', ''ssh_keys'', ''certificates''])"
  by (simp add: bookkeeping_def)

lemma write_path_fresh:
  assumes m: "cache_misses w (secret_cache_key ws u)"
    and d: "\<not> db_down w ''secret_contexts''"
    and r: "filter (row_of u ws) (tables w ''secret_contexts'') = []"
    and i: "filter (has_id (Some (JStr (uuids w (drawn w))))) (tables w ''secret_contexts'') = []"
    and n: "mapname = ''credentials'' \<or> mapname = ''ssh_keys''"
  shows "\<exists>enc k w4.
      encryptObject P svc (entropy w) (Suc (drawn w)) (clock w)
        (first_context P ws u (uuids w (drawn w)) (clock w) mapname name entry)
        [''credentials'', ''ssh_keys'', ''certificates''] None = Inr (enc, k)
    \<and> tables w4 = (tables w)(''secret_contexts'' := tables w ''secret_contexts'' @ [JObj enc])
    \<and> cache_store w4 = cache_store w \<and> db_down w4 = db_down w \<and> cache_down w4 = cache_down w
    \<and> useInMemoryCache w4 = useInMemoryCache w \<and> clock w4 = clock w
    \<and> uuids w4 = uuids w \<and> drawn w4 = k
    \<and> trace w4 = trace w @ [CacheGet (secret_cache_key ws u), DbSelect ''secret_contexts'',
          DbSelect ''secret_contexts'', DbInsert ''secret_contexts'']
    \<and> write_path P svc ws u mapname name entry logData w =
        (Inr (), snd (cacheDelete (secret_cache_key ws u) (snd (createAuditLog P logData w4))))"
proof -
  let ?ctx = "first_context P ws u (uuids w (drawn w)) (clock w) mapname name entry"
  let ?w2 = "(emit (DbSelect ''secret_contexts'') (emit (CacheGet (secret_cache_key ws u)) w))
        \<lparr>drawn := Suc (drawn w)\<rparr>"
  from encryptObject_succeeds [OF first_context_bookkeeping]
  obtain enc k where
    enc: "encryptObject P svc (entropy w) (Suc (drawn w)) (clock w) ?ctx
        [''credentials'', ''ssh_keys'', ''certificates''] None = Inr (enc, k)"
    by blast
  have enc2: "encryptObject P svc (entropy ?w2) (drawn ?w2) (clock ?w2) ?ctx
        [''credentials'', ''ssh_keys'', ''certificates''] None = Inr (enc, k)"
    using enc by (simp add: emit_def)
  have d2: "\<not> db_down ?w2 ''secret_contexts''" using d by (simp add: emit_def)
  have i2: "filter (has_id (obj_get ?ctx ''id'')) (tables ?w2 ''secret_contexts'') = []"
    using i by (simp add: first_context_get [OF n] emit_def)
  note save = saveSecretContext_insert [OF enc2 d2 i2]
  have clock_w2: "clock ?w2 = clock w" by (simp add: emit_def)
  let ?w4 = "?w2\<lparr>drawn := k,
        tables := (tables ?w2)(''secret_contexts'' := tables ?w2 ''secret_contexts'' @ [JObj enc]),
        trace := trace ?w2 @ [DbSelect ''secret_contexts'', DbInsert ''secret_contexts'']\<rparr>"
  have run: "write_path P svc ws u mapname name entry logData w =
        (Inr (), snd (cacheDelete (secret_cache_key ws u) (snd (createAuditLog P logData ?w4))))"
    unfolding write_path_def
    apply (rule io_bind_eq)
     apply (rule load_or_create_fresh [OF m d r])
    apply (rule io_bind_eq)
     apply (rule set_entry_fresh [OF n])
    apply (rule io_bind_eq)
     apply (rule set_updated_at_obj)
    apply (simp only: clock_w2)
    apply (rule io_bind_eq)
     apply (rule save [unfolded first_context_def])
    apply (rule audit_then_delete)
    done
  have p: "tables ?w4 = (tables w)(''secret_contexts'' := tables w ''secret_contexts'' @ [JObj enc])"
    "cache_store ?w4 = cache_store w" "db_down ?w4 = db_down w" "cache_down ?w4 = cache_down w"
    "useInMemoryCache ?w4 = useInMemoryCache w" "clock ?w4 = clock w"
    "uuids ?w4 = uuids w" "drawn ?w4 = k"
    "trace ?w4 = trace w @ [CacheGet (secret_cache_key ws u), DbSelect ''secret_contexts'',
          DbSelect ''secret_contexts'', DbInsert ''secret_contexts'']"
    by (simp_all add: emit_def)
  show ?thesis
    apply (rule exI [of _ enc])
    apply (rule exI [of _ k])
    apply (rule exI [of _ ?w4])
    apply (intro conjI)
              apply (rule enc)
             apply (rule p)+
    apply (rule run)
    done
qed

subsection \<open>The world after the audit append and the cache invalidation\<close>

lemma finish_write_effect:
  "tables (finish_write P d k w) ''secret_contexts'' = tables w ''secret_contexts''"
  "db_down (finish_write P d k w) = db_down w"
  "cache_misses (finish_write P d k w) k"
  "trace (finish_write P d k w) = trace w @ [DbInsert ''audit_logs'', CacheDelete k]"
  "clock (finish_write P d k w) = clock w"
  "\<not> db_down w ''audit_logs'' \<Longrightarrow>
     tables (finish_write P d k w) ''audit_logs''
       = tables w ''audit_logs'' @ [audit_doc P d (uuids w (drawn w)) (clock w)]"
  "db_down w ''audit_logs'' \<Longrightarrow>
     tables (finish_write P d k w) ''audit_logs'' = tables w ''audit_logs''"
  by (simp_all add: finish_write_def createAuditLog_run cacheDelete_run emit_def
      backend_fails_def cache_misses_def)

subsection \<open>The first write of a pair\<close>

lemma write_fresh:
  assumes f: "fresh_pair w ws u"
    and n: "mapname = ''credentials'' \<or> mapname = ''ssh_keys''"
  shows "\<exists>enc k.
      encryptObject P svc (entropy w) (Suc (Suc (drawn w))) (clock w)
        (first_context P ws u (uuids w (Suc (drawn w))) (clock w) mapname name entry)
        [''credentials'', ''ssh_keys'', ''certificates''] None = Inr (enc, k)
    \<and> fst (write_path P svc ws u mapname name entry logData (w\<lparr>drawn := Suc (drawn w)\<rparr>)) = Inr ()
    \<and> tables (snd (write_path P svc ws u mapname name entry logData (w\<lparr>drawn := Suc (drawn w)\<rparr>)))
          ''secret_contexts'' = tables w ''secret_contexts'' @ [JObj enc]
    \<and> db_down (snd (write_path P svc ws u mapname name entry logData (w\<lparr>drawn := Suc (drawn w)\<rparr>)))
          = db_down w
    \<and> clock (snd (write_path P svc ws u mapname name entry logData (w\<lparr>drawn := Suc (drawn w)\<rparr>)))
          = clock w
    \<and> cache_misses (snd (write_path P svc ws u mapname name entry logData (w\<lparr>drawn := Suc (drawn w)\<rparr>)))
          (secret_cache_key ws u)
    \<and> trace (snd (write_path P svc ws u mapname name entry logData (w\<lparr>drawn := Suc (drawn w)\<rparr>)))
          = trace w @ [CacheGet (secret_cache_key ws u), DbSelect ''secret_contexts'',
              DbSelect ''secret_contexts'', DbInsert ''secret_contexts'',
              DbInsert ''audit_logs'', CacheDelete (secret_cache_key ws u)]
    \<and> (\<not> db_down w ''audit_logs'' \<longrightarrow>
         tables (snd (write_path P svc ws u mapname name entry logData (w\<lparr>drawn := Suc (drawn w)\<rparr>)))
           ''audit_logs'' = tables w ''audit_logs'' @ [audit_doc P logData (uuids w k) (clock w)])"
proof -
  let ?w1 = "w\<lparr>drawn := Suc (drawn w)\<rparr>"
  have m: "cache_misses ?w1 (secret_cache_key ws u)"
    and d: "\<not> db_down ?w1 ''secret_contexts''"
    and r: "filter (row_of u ws) (tables ?w1 ''secret_contexts'') = []"
    and i: "filter (has_id (Some (JStr (uuids ?w1 (drawn ?w1))))) (tables ?w1 ''secret_contexts'') = []"
    using f by (simp_all add: fresh_pair_def cache_misses_def backend_fails_def)
  from write_path_fresh [OF m d r i n, of P svc name entry logData]
  obtain enc k w4 where
    enc: "encryptObject P svc (entropy ?w1) (Suc (drawn ?w1)) (clock ?w1)
        (first_context P ws u (uuids ?w1 (drawn ?w1)) (clock ?w1) mapname name entry)
        [''credentials'', ''ssh_keys'', ''certificates''] None = Inr (enc, k)"
    and w4: "tables w4 = (tables ?w1)(''secret_contexts'' := tables ?w1 ''secret_contexts'' @ [JObj enc])"
      "db_down w4 = db_down ?w1" "clock w4 = clock ?w1" "uuids w4 = uuids ?w1" "drawn w4 = k"
      "trace w4 = trace ?w1 @ [CacheGet (secret_cache_key ws u), DbSelect ''secret_contexts'',
          DbSelect ''secret_contexts'', DbInsert ''secret_contexts'']"
    and run: "write_path P svc ws u mapname name entry logData ?w1 =
        (Inr (), finish_write P logData (secret_cache_key ws u) w4)"
    unfolding finish_write_def by blast
  have enc': "encryptObject P svc (entropy w) (Suc (Suc (drawn w))) (clock w)
        (first_context P ws u (uuids w (Suc (drawn w))) (clock w) mapname name entry)
        [''credentials'', ''ssh_keys'', ''certificates''] None = Inr (enc, k)"
    using enc by simp
  show ?thesis
    apply (rule exI [of _ enc])
    apply (rule exI [of _ k])
    apply (simp only: run fst_conv snd_conv finish_write_effect enc' simp_thms)
    apply (simp add: finish_write_effect w4)
    done
qed


lemma fresh_pair_ref: "fresh_pair ref_world ws u"
  by (simp add: fresh_pair_def cache_misses_def ref_world_def)

lemma secret_cache_key_WU: "secret_cache_key ''W'' ''U'' = ''cv:context:secret_context:W:U''"
  by (simp add: secret_cache_key_def generateCacheKey_def)

lemma obj_get_envelope_None:
  "name \<notin> set envelope_keys \<Longrightarrow> obj_get (EncryptedValue_to_json ev) name = None"
  by (auto simp add: EncryptedValue_to_json_def opt_field_def obj_get_def envelope_keys_def
      split: option.splits)

lemma getSecretContext_from_store:
  assumes "cache_misses w (secret_cache_key ws u)" "\<not> db_down w ''secret_contexts''"
    "filter (row_of u ws) (tables w ''secret_contexts'') = row # rows" "truthy row"
  shows "\<exists>w'. getSecretContext P ws u w = (Inr (Some row), w')"
  using assms
  by (simp add: getSecretContext_def cacheGet_miss findByUserAndWorkspace_def io_bind_def
      cacheSet_effect emit_def)

lemma getCredential_not_an_entry:
  assumes g: "getSecretContext P ws u w = (Inr (Some (JObj row)), w')"
    and c: "obj_get row ''credentials'' = Some (JObj (EncryptedValue_to_json ev))"
    and n: "name \<notin> set envelope_keys"
  shows "getCredential P svc ws u name w = (Inr None, w')"
  unfolding getCredential_def
  apply (rule io_bind_eq)
   apply (rule g)
  apply (simp add: get_entry_def c obj_get_envelope_None [OF n])
  done

lemma null_after_first_store:
  assumes f: "fresh_pair w ws u" and n: "name \<notin> set envelope_keys"
    and o: "name \<notin> set Object_prototype_names"
  shows "fst (storeCredential P svc ws u name secret ty pr ex w) = Inr ()
    \<and> fst (getCredential P svc ws u name
              (snd (storeCredential P svc ws u name secret ty pr ex w))) = Inr None"
proof -
  let ?entry = "credential_entry (encrypt P svc (entropy w (drawn w)) (clock w) secret ex) ty pr u name"
  let ?log = "store_credential_log P ws u name secret"
  let ?w' = "snd (storeCredential P svc ws u name secret ty pr ex w)"
  let ?ctx = "first_context P ws u (uuids w (Suc (drawn w))) (clock w) ''credentials'' name ?entry"
  have c: "''credentials'' = ''credentials'' \<or> ''credentials'' = ''ssh_keys''" by simp
  from write_fresh [OF f c, of P svc name ?entry ?log]
  obtain enc k where
    enc: "encryptObject P svc (entropy w) (Suc (Suc (drawn w))) (clock w) ?ctx
        [''credentials'', ''ssh_keys'', ''certificates''] None = Inr (enc, k)"
    and ok: "fst (storeCredential P svc ws u name secret ty pr ex w) = Inr ()"
    and t: "tables ?w' ''secret_contexts'' = tables w ''secret_contexts'' @ [JObj enc]"
    and d: "db_down ?w' = db_down w"
    and m: "cache_misses ?w' (secret_cache_key ws u)"
    unfolding storeCredential_write_path by blast
  note spec = encryptObject_spec [OF enc]
  note ctx = first_context_get [OF c, of P ws u "uuids w (Suc (drawn w))" "clock w" name ?entry]
  have u: "obj_get enc ''user_id'' = Some (JStr u)" "obj_get enc ''workspace_id'' = Some (JStr ws)"
    using spec ctx(2,3) by (simp_all add: bookkeeping_def)
  from spec ctx(5) obtain j where
    "obj_get enc ''credentials'' = Some (envelope_of P svc (entropy w j) (clock w) None (the (obj_get ?ctx ''credentials'')))"
    by auto
  then have cr: "obj_get enc ''credentials'' = Some (JObj (EncryptedValue_to_json
      (encrypt P svc (entropy w j) (clock w) (plaintext_of P (JObj (first_entries name ?entry))) None)))"
    using ctx(4) by (simp add: envelope_of_def)
  have rows: "filter (row_of u ws) (tables ?w' ''secret_contexts'') = JObj enc # []"
    using f u by (simp add: t fresh_pair_def row_of_def)
  have up: "\<not> db_down ?w' ''secret_contexts''" using f d by (simp add: fresh_pair_def)
  from getSecretContext_from_store [OF m up rows, of P]
  obtain w'' where g: "getSecretContext P ws u ?w' = (Inr (Some (JObj enc)), w'')" by auto
  from getCredential_not_an_entry [OF g cr n, of svc] ok show ?thesis by simp
qed

lemma audit_doc_new_value_hash:
  "get_prop (audit_doc P (access_log ws u operation name status None) uuid t) ''new_value_hash'' = None"
  "get_prop (audit_doc P (store_credential_log P ws u name secret) uuid t) ''new_value_hash''
     = Some (JStr (hash P secret))"
  by (simp_all add: audit_doc_def access_log_def store_credential_log_def opt_field_def obj_get_def)

lemma first_write_facts:
  assumes f: "fresh_pair w ws u"
  shows "fst (storeCredential P svc ws u name secret ty pr ex w) = Inr ()"
    and "fst (storeSSHKey P svc ws u name secret pub kt md w) = Inr ()"
    and "trace (snd (storeCredential P svc ws u name secret ty pr ex w))
          = trace w @ [CacheGet (secret_cache_key ws u), DbSelect ''secret_contexts'',
              DbSelect ''secret_contexts'', DbInsert ''secret_contexts'',
              DbInsert ''audit_logs'', CacheDelete (secret_cache_key ws u)]"
    and "\<not> db_down w ''audit_logs'' \<Longrightarrow>
         \<exists>uuid. tables (snd (storeCredential P svc ws u name secret ty pr ex w)) ''audit_logs''
           = tables w ''audit_logs''
             @ [audit_doc P (store_credential_log P ws u name secret) uuid (clock w)]"
    and "\<not> db_down w ''audit_logs'' \<Longrightarrow>
         \<exists>uuid. tables (snd (storeSSHKey P svc ws u name secret pub kt md w)) ''audit_logs''
           = tables w ''audit_logs''
             @ [audit_doc P (access_log ws u ''store_ssh_key'' name ''success'' None) uuid (clock w)]"
proof -
  have c: "''credentials'' = ''credentials'' \<or> ''credentials'' = ''ssh_keys''" by simp
  have k: "''ssh_keys'' = ''credentials'' \<or> ''ssh_keys'' = ''ssh_keys''" by simp
  note a = write_fresh [OF f c, of P svc name
      "credential_entry (encrypt P svc (entropy w (drawn w)) (clock w) secret ex) ty pr u name"
      "store_credential_log P ws u name secret", folded storeCredential_write_path]
  note b = write_fresh [OF f k, of P svc name
      "ssh_key_entry P (encrypt P svc (entropy w (drawn w)) (clock w) secret None) kt pub md"
      "access_log ws u ''store_ssh_key'' name ''success'' None", folded storeSSHKey_write_path]
  show "fst (storeCredential P svc ws u name secret ty pr ex w) = Inr ()" using a by blast
  show "fst (storeSSHKey P svc ws u name secret pub kt md w) = Inr ()" using b by blast
  show "trace (snd (storeCredential P svc ws u name secret ty pr ex w))
          = trace w @ [CacheGet (secret_cache_key ws u), DbSelect ''secret_contexts'',
              DbSelect ''secret_contexts'', DbInsert ''secret_contexts'',
              DbInsert ''audit_logs'', CacheDelete (secret_cache_key ws u)]"
    using a by blast
  show "\<exists>uuid. tables (snd (storeCredential P svc ws u name secret ty pr ex w)) ''audit_logs''
           = tables w ''audit_logs''
             @ [audit_doc P (store_credential_log P ws u name secret) uuid (clock w)]"
    if "\<not> db_down w ''audit_logs''"
    using a that by blast
  show "\<exists>uuid. tables (snd (storeSSHKey P svc ws u name secret pub kt md w)) ''audit_logs''
           = tables w ''audit_logs''
             @ [audit_doc P (access_log ws u ''store_ssh_key'' name ''success'' None) uuid (clock w)]"
    if "\<not> db_down w ''audit_logs''"
    using b that by blast
qed

section \<open>The cache never fails an operation\<close>

text \<open>
  Claim C9. \<open>cacheGet\<close> always returns, and returns \<open>null\<close> when the backend
  throws; \<open>cacheSet\<close> and \<open>cacheDelete\<close> always return normally; and no operation
  of the secret-context service throws the error of the cache backend, from whatever
  world it starts.
\<close>

theorem cache_failure_never_propagates:
  "(\<exists>r. fst (cacheGet P k w) = Inr r)
   \<and> (backend_fails w \<longrightarrow> fst (cacheGet P k w) = Inr None)
   \<and> fst (cacheSet P k v ttl w) = Inr ()
   \<and> fst (cacheDelete k w) = Inr ()
   \<and> never_throws CacheBackendError (storeCredential P svc ws u name secret ty pr ex)
   \<and> never_throws CacheBackendError (getCredential P svc ws u name)
   \<and> never_throws CacheBackendError (storeSSHKey P svc ws u name secret pub kt md)
   \<and> never_throws CacheBackendError (getSSHKey P svc ws u name)
   \<and> never_throws CacheBackendError (listSecrets P ws u)
   \<and> never_throws CacheBackendError (deleteSecret P svc ws u st name)"
  by (simp add: cacheGet_returns cacheGet_down cacheSet_returns cacheDelete_returns
      never_throws_storeCredential never_throws_getCredential never_throws_storeSSHKey
      never_throws_getSSHKey never_throws_listSecrets never_throws_deleteSecret)


text \<open>A concrete run of claim C9, in a world whose cache backend is down.\<close>

theorem cache_failure_never_propagates_witness:
  "backend_fails down_world
   \<and> fst (cacheGet ref_platform ''k'' down_world) = Inr None
   \<and> fst (cacheSet ref_platform ''k'' JNull 300 down_world) = Inr ()
   \<and> fst (cacheDelete ''k'' down_world) = Inr ()
   \<and> fst (storeCredential ref_platform ref_service ''W'' ''U'' ''openai_key'' ''sk-test-123''
           ''api_key'' ''openai'' None down_world) \<noteq> Inl CacheBackendError"
proof -
  have h: "backend_fails down_world"
    by (simp add: backend_fails_def down_world_def ref_world_def)
  from h cache_failure_never_propagates
    [of ref_platform "''k''" down_world JNull 300 ref_service "''W''" "''U''" "''openai_key''"
      "''sk-test-123''" "''api_key''" "''openai''" None]
  show ?thesis by (simp add: never_throws_def)
qed

section \<open>Order of the steps of a write\<close>

text \<open>
  Claim C4, as the code has it. A successful \<open>storeCredential\<close> or \<open>storeSSHKey\<close>
  ends with these three requests, in this order: the context is persisted (an insert or
  an update of \<open>secret_contexts\<close>), then the audit entry is appended, then the cache
  entry of the pair is deleted. The cache is invalidated after the audit append.
\<close>

theorem write_path_order:
  assumes "storeCredential P svc ws u name secret ty pr ex w = (Inr x, w')
         \<or> storeSSHKey P svc ws u name secret pub kt md w = (Inr x, w')"
  shows "\<exists>pre persist.
      trace w' = trace w @ pre @ [persist, DbInsert ''audit_logs'', CacheDelete (secret_cache_key ws u)]
      \<and> (persist = DbInsert ''secret_contexts'' \<or> persist = DbUpdate ''secret_contexts'')"
  using assms write_path_trace [of P svc ws u _ name _ _ "w\<lparr>drawn := Suc (drawn w)\<rparr>" x w']
  by (auto simp add: storeCredential_write_path storeSSHKey_write_path)

text \<open>Claim C4 as stated fails: in the first \<open>storeCredential\<close> of the reference world
  the audit entry is appended before the cache entry is deleted.\<close>

theorem write_path_order_counterexample:
  "fst (storeCredential ref_platform ref_service ''W'' ''U'' ''openai_key'' ''sk-test-123''
          ''api_key'' ''openai'' None ref_world) = Inr ()
   \<and> trace stored_world =
       [CacheGet ''cv:context:secret_context:W:U'', DbSelect ''secret_contexts'',
        DbSelect ''secret_contexts'', DbInsert ''secret_contexts'',
        DbInsert ''audit_logs'', CacheDelete ''cv:context:secret_context:W:U'']"
proof -
  have "trace ref_world = []" by (simp add: ref_world_def)
  with first_write_facts(1,3) [OF fresh_pair_ref, of ref_platform ref_service "''W''" "''U''"
      "''openai_key''" "''sk-test-123''" "''api_key''" "''openai''" None]
  show ?thesis by (simp add: stored_world_def secret_cache_key_WU)
qed

text \<open>A concrete run of claim C4: the first \<open>storeCredential\<close> of the reference world.\<close>

theorem write_path_order_witness:
  "\<exists>pre persist.
      trace stored_world = trace ref_world @ pre
          @ [persist, DbInsert ''audit_logs'', CacheDelete (secret_cache_key ''W'' ''U'')]
      \<and> (persist = DbInsert ''secret_contexts'' \<or> persist = DbUpdate ''secret_contexts'')"
proof -
  have "storeCredential ref_platform ref_service ''W'' ''U'' ''openai_key'' ''sk-test-123''
          ''api_key'' ''openai'' None ref_world = (Inr (), stored_world)"
    using first_write_facts(1) [OF fresh_pair_ref, of ref_platform ref_service "''W''" "''U''"
      "''openai_key''" "''sk-test-123''" "''api_key''" "''openai''" None]
    by (simp add: stored_world_def prod_eq_iff)
  then show ?thesis
    by (rule write_path_order [OF disjI1])
qed

section \<open>The audit entry of a write\<close>

text \<open>
  Claim C3 fails for \<open>storeSSHKey\<close>. The first \<open>storeSSHKey\<close> of the reference world
  succeeds and appends one audit entry, of operation \<open>store_ssh_key\<close>, that has no
  \<open>new_value_hash\<close> at all; the audit entry of the first \<open>storeCredential\<close> carries the
  hash of the plaintext value.
\<close>

theorem ssh_key_audit_without_hash:
  "fst (storeSSHKey ref_platform ref_service ''W'' ''U'' ''deploy'' ''PRIVATE KEY''
          ''PUBLIC KEY'' ''ed25519'' None ref_world) = Inr ()
   \<and> column ''operation'' (tables ssh_world ''audit_logs'') = [Some (JStr ''store_ssh_key'')]
   \<and> column ''new_value_hash'' (tables ssh_world ''audit_logs'') = [None]
   \<and> column ''new_value_hash'' (tables stored_world ''audit_logs'')
       = [Some (JStr (hash ref_platform ''sk-test-123''))]"
proof -
  have up: "\<not> db_down ref_world ''audit_logs''" by (simp add: ref_world_def)
  have e: "tables ref_world ''audit_logs'' = []" by (simp add: ref_world_def)
  have op: "get_prop (audit_doc P (access_log ws u operation name status None) uuid t) ''operation''
      = Some (JStr operation)" for P ws u operation name status uuid t
    by (simp add: audit_doc_def access_log_def obj_get_def)
  from first_write_facts(2) [OF fresh_pair_ref]
    first_write_facts(4) [OF fresh_pair_ref up, of ref_platform ref_service "''W''" "''U''"
      "''openai_key''" "''sk-test-123''" "''api_key''" "''openai''" None]
    first_write_facts(5) [OF fresh_pair_ref up, of ref_platform ref_service "''W''" "''U''"
      "''deploy''" "''PRIVATE KEY''" "''PUBLIC KEY''" "''ed25519''" None]
  show ?thesis
    by (auto simp add: stored_world_def ssh_world_def column_def e audit_doc_new_value_hash op)
qed

section \<open>Reading back a stored credential\<close>

text \<open>
  Claim C1 fails. In the reference world (empty store and cache, both up) the
  \<open>storeCredential\<close> of the end-to-end scenario succeeds, and the \<open>getCredential\<close> that
  follows returns \<open>null\<close>: the row that \<open>saveSecretContext\<close> wrote holds the
  \<open>credentials\<close> map as one envelope, and \<open>getSecretContext\<close> hands it out as it is.
\<close>

theorem store_then_get_returns_null:
  "fst (storeCredential ref_platform ref_service ''W'' ''U'' ''openai_key'' ''sk-test-123''
          ''api_key'' ''openai'' None ref_world) = Inr ()
   \<and> fst (getCredential ref_platform ref_service ''W'' ''U'' ''openai_key'' stored_world) = Inr None"
  using null_after_first_store [OF fresh_pair_ref, of "''openai_key''" ref_platform ref_service
      "''W''" "''U''" "''sk-test-123''" "''api_key''" "''openai''" None]
  by (simp add: stored_world_def envelope_keys_def Object_prototype_names_def)

section \<open>Round trip of encryptObject and decryptObject\<close>














end
